theory Spec2Isabelle
  imports Complex_Main "HOL-Library.AList" "HOL-Library.Product_Lexorder"
    "HOL-Library.List_Lexorder" "HOL-Library.Char_ord"
begin

section \<open>Decimal arithmetic, errors and dictionaries\<close>

text \<open>
  The services compute with Python \<^verbatim>\<open>Decimal\<close> values.  They are modelled as exact
  rationals: sums, differences and products are exact, a quotient is the exact quotient
  (the 28 significant digits of the default decimal context are not modelled), and
  \<^verbatim>\<open>x.quantize(Decimal("0.0001"), ROUND_HALF_UP)\<close> rounds to a multiple of
  \<open>1/10000\<close>, ties away from zero.  Dividing by zero raises in Python, so a division
  is a value of \<open>error + decimal\<close>.

  A Python \<^verbatim>\<open>dict\<close> keeps its keys in insertion order; it is an association list with
  distinct keys, read with \<open>map_of\<close> and written with \<open>AList.update\<close> (which
  overwrites the entry of a present key in place and appends an absent one).
\<close>

datatype error =
  DivisionByZero | DivisionUndefined | InvalidOperation | Overflow | KeyError | ValueError
  | AttributeError | MultipleResultsFound | DataError

text \<open>Sequencing of steps that may raise.\<close>

definition bindE :: "error + 'a \<Rightarrow> ('a \<Rightarrow> error + 'b) \<Rightarrow> error + 'b" where
  "bindE m f = (case m of Inl e \<Rightarrow> Inl e | Inr x \<Rightarrow> f x)"

type_synonym decimal = rat

definition ZERO :: decimal where
  "ZERO = 0"

definition quantize4 :: "decimal \<Rightarrow> decimal" where
  "quantize4 x = sgn x * of_int \<lfloor>\<bar>x\<bar> * 10000 + 1 / 2\<rfloor> / 10000"

definition dec_div :: "decimal \<Rightarrow> decimal \<Rightarrow> error + decimal" where
  "dec_div a b =
     (if b = 0 then (if a = 0 then Inl DivisionUndefined else Inl DivisionByZero)
      else Inr (a / b))"

section \<open>Allocation engine (services/allocation.py)\<close>

text \<open>
  The loop of \<^verbatim>\<open>allocate_by_quantity\<close> over \<^verbatim>\<open>enumerate(items)\<close>: the test
  \<^verbatim>\<open>i == len(items) - 1\<close> holds exactly when no item follows.  The loop of
  \<^verbatim>\<open>allocate_by_ratio\<close> is the same text, with ratios for quantities.
\<close>

fun allocate_loop ::
  "decimal \<Rightarrow> decimal \<Rightarrow> decimal \<Rightarrow> ('k \<times> decimal) list \<Rightarrow> ('k \<times> decimal) list
     \<Rightarrow> error + ('k \<times> decimal) list" where
  "allocate_loop total_budget total_qty allocated_sum result [] = Inr result"
| "allocate_loop total_budget total_qty allocated_sum result ((item_id, qty) # items) =
     (if items = [] then
        allocate_loop total_budget total_qty allocated_sum
          (AList.update item_id (total_budget - allocated_sum) result) items
      else
        (case dec_div (total_budget * qty) total_qty of
           Inl e \<Rightarrow> Inl e
         | Inr q \<Rightarrow>
             (let amount = quantize4 q in
              allocate_loop total_budget total_qty (allocated_sum + amount)
                (AList.update item_id amount result) items)))"

definition allocate_by_quantity ::
  "decimal \<Rightarrow> ('k \<times> decimal) list \<Rightarrow> error + ('k \<times> decimal) list" where
  "allocate_by_quantity total_budget quantities =
     (let total_qty = sum_list (map snd quantities) in
      if total_qty = 0 then Inr (map (\<lambda>(k, _). (k, 0)) quantities)
      else allocate_loop total_budget total_qty 0 [] quantities)"

definition allocate_by_ratio ::
  "decimal \<Rightarrow> ('k \<times> decimal) list \<Rightarrow> error + ('k \<times> decimal) list" where
  "allocate_by_ratio total_budget ratios =
     (let total_ratio = sum_list (map snd ratios) in
      if total_ratio = 0 then Inr (map (\<lambda>(k, _). (k, ZERO)) ratios)
      else allocate_loop total_budget total_ratio ZERO [] ratios)"

subsection \<open>Allocation rules (models/master.py) and rule resolution\<close>

text \<open>
  Identifiers are the strings the services build with \<^verbatim>\<open>str(...)\<close> from UUIDs.  The
  fields of an ORM class keep their names, prefixed with a tag of the class (several
  classes share field names, and a field name must not clash with a local variable of the
  services); the primary key \<^verbatim>\<open>id\<close> of a class is its \<open>ident\<close> field.  \<^verbatim>\<open>cost_element\<close> and \<^verbatim>\<open>priority\<close> are the columns the
  migration \<^verbatim>\<open>b2c3d4e5f6g7\<close> adds to \<^verbatim>\<open>allocation_rules\<close>: a nullable string and an
  integer.
\<close>

type_synonym ident = string

datatype AllocationBasis =
  production_hours | raw_material_quantity | crude_quantity | weight_based | manual

record AllocationRuleTarget =
  target_cost_center_id :: ident
  target_ratio :: decimal

record AllocationRule =
  rule_ident :: ident
  rule_source_cost_center_id :: ident
  rule_cost_element :: "string option"
  rule_basis :: AllocationBasis
  rule_priority :: int
  rule_is_active :: bool
  rule_targets :: "AllocationRuleTarget list"

text \<open>
  \<^verbatim>\<open>_find_matching_rule\<close>: the loop over the rules, with the local variable
  \<^verbatim>\<open>wildcard_rule\<close> as an argument.
\<close>

fun find_matching_rule_loop ::
  "AllocationRule list \<Rightarrow> string \<Rightarrow> AllocationRule option \<Rightarrow> AllocationRule option" where
  "find_matching_rule_loop [] cost_element wildcard_rule = wildcard_rule"
| "find_matching_rule_loop (rule # rules) cost_element wildcard_rule =
     (if rule_cost_element rule = Some cost_element then Some rule
      else if rule_cost_element rule = None \<and> wildcard_rule = None then
        find_matching_rule_loop rules cost_element (Some rule)
      else find_matching_rule_loop rules cost_element wildcard_rule)"

definition find_matching_rule :: "AllocationRule list \<Rightarrow> string \<Rightarrow> AllocationRule option" where
  "find_matching_rule rules cost_element = find_matching_rule_loop rules cost_element None"

subsection \<open>Master data (models/master.py)\<close>

datatype CostCenterType = cct_manufacturing | cct_product | cct_indirect

datatype MaterialCategory = fruit | vegetable | grain | seaweed | other

datatype BomType = raw_material_process | product_process

record CostCenter =
  cc_ident :: ident
  cc_center_type :: CostCenterType

record Material =
  mat_ident :: ident
  mat_category :: "MaterialCategory option"
  mat_standard_unit_price :: decimal
  mat_is_active :: bool

record CrudeProduct =
  cp_ident :: ident
  cp_is_blend :: bool
  cp_is_active :: bool

record Product =
  prod_ident :: ident
  prod_content_weight_g :: "decimal option"
  prod_standard_lot_size :: decimal
  prod_is_active :: bool

record BomLine =
  line_material_id :: "ident option"
  line_crude_product_id :: "ident option"
  line_quantity :: decimal
  line_loss_rate :: decimal

record BomHeader =
  bom_product_id :: "ident option"
  bom_crude_product_id :: "ident option"
  bom_type :: BomType
  bom_effective_date :: int
  bom_is_active :: bool
  bom_lines :: "BomLine list"

record CostBudget =
  cb_cost_center_id :: ident
  cb_period_id :: ident
  cb_labor_budget :: decimal
  cb_overhead_budget :: decimal
  cb_outsourcing_budget :: decimal

subsection \<open>Cost tables (models/cost.py, models/variance.py, models/audit.py)\<close>

record StandardCost =
  sc_product_id :: ident
  sc_period_id :: ident
  sc_crude_product_cost :: decimal
  sc_packaging_cost :: decimal
  sc_labor_cost :: decimal
  sc_overhead_cost :: decimal
  sc_outsourcing_cost :: decimal
  sc_total_cost :: decimal
  sc_unit_cost :: decimal
  sc_lot_size :: decimal
  sc_notes :: "string option"

record CrudeProductStandardCost =
  cpsc_crude_product_id :: ident
  cpsc_period_id :: ident
  cpsc_material_cost :: decimal
  cpsc_labor_cost :: decimal
  cpsc_overhead_cost :: decimal
  cpsc_prior_process_cost :: decimal
  cpsc_total_cost :: decimal
  cpsc_unit_cost :: decimal
  cpsc_standard_quantity :: decimal
  cpsc_notes :: "string option"

datatype SourceSystem =
  geneki_db | sc_system | kanjyo_bugyo | tsuhan21 | romu_db | product_db | manual_entry

record ActualCost =
  ac_product_id :: ident
  ac_cost_center_id :: ident
  ac_period_id :: ident
  ac_crude_product_cost :: decimal
  ac_packaging_cost :: decimal
  ac_labor_cost :: decimal
  ac_overhead_cost :: decimal
  ac_outsourcing_cost :: decimal
  ac_total_cost :: decimal
  ac_quantity_produced :: decimal
  ac_source_system :: SourceSystem
  ac_notes :: "string option"

datatype VarianceType = price | quantity_variance | efficiency | mix | volume

text \<open>
  \<^verbatim>\<open>flag_reason\<close> is a message formatted from the element, the direction, the threshold
  and the percentage; the record keeps these four values in place of the text.
\<close>

record VarianceRecord =
  vr_product_id :: ident
  vr_cost_center_id :: ident
  vr_period_id :: ident
  vr_variance_type :: VarianceType
  vr_cost_element :: string
  vr_standard_amount :: decimal
  vr_actual_amount :: decimal
  vr_variance_amount :: decimal
  vr_variance_percent :: decimal
  vr_is_favorable :: bool
  vr_is_flagged :: bool
  vr_flag_reason :: "(string \<times> bool \<times> decimal \<times> decimal) option"

datatype CostElement =
  ce_material | ce_crude_product | ce_packaging | ce_labor | ce_overhead | ce_outsourcing
  | ce_prior_process

record CostAllocation =
  ca_rule_id :: ident
  ca_period_id :: ident
  ca_source_cost_center_id :: ident
  ca_target_cost_center_id :: ident
  ca_cost_element :: "CostElement option"
  ca_allocated_amount :: decimal
  ca_basis_quantity :: decimal
  ca_ratio :: decimal

datatype ReconciliationStatus = matched | unmatched | discrepancy

datatype MissingSide = missing_kanjyo_bugyo | missing_sc_system

text \<open>
  \<^verbatim>\<open>notes\<close> of a reconciliation result is one of two fixed messages, naming the source
  that has no data; the record keeps which one.
\<close>

record ReconciliationResult =
  rr_period_id :: ident
  rr_entity_type :: string
  rr_entity_id :: ident
  rr_source_a :: string
  rr_source_b :: string
  rr_value_a :: "decimal option"
  rr_value_b :: "decimal option"
  rr_difference :: "decimal option"
  rr_status :: ReconciliationStatus
  rr_notes :: "MissingSide option"

text \<open>The tables a session reads and writes, each in the order of its rows.\<close>

record database =
  db_materials :: "Material list"
  db_crude_products :: "CrudeProduct list"
  db_products :: "Product list"
  db_bom_headers :: "BomHeader list"
  db_cost_centers :: "CostCenter list"
  db_cost_budgets :: "CostBudget list"
  db_allocation_rules :: "AllocationRule list"
  db_fiscal_periods :: "ident list"
  db_crude_product_standard_costs :: "CrudeProductStandardCost list"
  db_standard_costs :: "StandardCost list"
  db_actual_costs :: "ActualCost list"
  db_cost_allocations :: "CostAllocation list"
  db_variance_records :: "VarianceRecord list"
  db_reconciliation_results :: "ReconciliationResult list"

subsection \<open>Quantities of a basis, rule-based allocation and its audit rows\<close>

text \<open>
  \<^verbatim>\<open>item_data\<close> maps an item to a dictionary of metrics.  \<open>metric data name\<close> is
  \<^verbatim>\<open>Decimal(str(data.get(name, 0)))\<close>.
\<close>

type_synonym item_data = "(ident \<times> (string \<times> decimal) list) list"

definition metric :: "(string \<times> decimal) list \<Rightarrow> string \<Rightarrow> decimal" where
  "metric data name = (case map_of data name of None \<Rightarrow> 0 | Some v \<Rightarrow> v)"

fun basis_quantity :: "AllocationBasis \<Rightarrow> (string \<times> decimal) list \<Rightarrow> decimal" where
  "basis_quantity raw_material_quantity data = metric data ''raw_material_quantity''"
| "basis_quantity weight_based data = metric data ''weight''"
| "basis_quantity crude_quantity data = metric data ''crude_quantity''"
| "basis_quantity production_hours data =
     (case map_of data ''production_hours'' of
        None \<Rightarrow> metric data ''raw_material_quantity''
      | Some hours \<Rightarrow> if hours > 0 then hours else metric data ''raw_material_quantity'')"
| "basis_quantity manual data = ZERO"

text \<open>
  \<^verbatim>\<open>compute_allocation_quantities\<close> assigns \<^verbatim>\<open>quantities[item_id]\<close> once for every key
  of \<^verbatim>\<open>item_data\<close>, in its order.
\<close>

definition compute_allocation_quantities ::
  "AllocationBasis \<Rightarrow> item_data \<Rightarrow> (ident \<times> decimal) list" where
  "compute_allocation_quantities basis item_data =
     map (\<lambda>(item_id, data). (item_id, basis_quantity basis data)) item_data"

text \<open>
  \<^verbatim>\<open>load_allocation_rules\<close> builds its query from \<^verbatim>\<open>AllocationRule.priority\<close>.  The
  class \<^verbatim>\<open>AllocationRule\<close> of models/master.py declares the columns \<^verbatim>\<open>name\<close>,
  \<^verbatim>\<open>source_cost_center_id\<close>, \<^verbatim>\<open>basis\<close>, \<^verbatim>\<open>is_active\<close> and \<^verbatim>\<open>notes\<close> only: it has
  neither \<^verbatim>\<open>priority\<close> nor \<^verbatim>\<open>cost_element\<close> (the migration adds them to the table, not
  to the class).  Reading the attribute on the class raises \<^verbatim>\<open>AttributeError\<close>, whatever
  the session holds, before any query is sent.
\<close>

definition load_allocation_rules :: "database \<Rightarrow> ident \<Rightarrow> error + AllocationRule list" where
  "load_allocation_rules db source_cost_center_id = Inl AttributeError"

text \<open>\<^verbatim>\<open>element_map.get(cost_element)\<close>: the member of \<^verbatim>\<open>CostElement\<close> with that value.\<close>

definition element_map :: "string \<Rightarrow> CostElement option" where
  "element_map cost_element =
     (if cost_element = ''material'' then Some ce_material
      else if cost_element = ''crude_product'' then Some ce_crude_product
      else if cost_element = ''packaging'' then Some ce_packaging
      else if cost_element = ''labor'' then Some ce_labor
      else if cost_element = ''overhead'' then Some ce_overhead
      else if cost_element = ''outsourcing'' then Some ce_outsourcing
      else if cost_element = ''prior_process'' then Some ce_prior_process
      else None)"

text \<open>
  \<^verbatim>\<open>_create_allocation_records\<close>: one row per item with a non-zero amount
  (\<^verbatim>\<open>executed_at\<close>, the time of the call, is left out of the row).
\<close>

fun create_allocation_records_loop ::
  "AllocationRule \<Rightarrow> ident \<Rightarrow> ident \<Rightarrow> CostElement option \<Rightarrow> (ident \<times> decimal) list \<Rightarrow> decimal
     \<Rightarrow> (ident \<times> decimal) list \<Rightarrow> database \<Rightarrow> error + database" where
  "create_allocation_records_loop rule period_id source_cost_center_id ce quantities total_qty
     [] db = Inr db"
| "create_allocation_records_loop rule period_id source_cost_center_id ce quantities total_qty
     ((item_id, amount) # allocation) db =
     (if amount = ZERO then
        create_allocation_records_loop rule period_id source_cost_center_id ce quantities
          total_qty allocation db
      else
        (let qty = (case map_of quantities item_id of None \<Rightarrow> ZERO | Some q \<Rightarrow> q) in
         case (if total_qty > 0 then
                 (case dec_div qty total_qty of Inl e \<Rightarrow> Inl e | Inr q \<Rightarrow> Inr (quantize4 q))
               else Inr ZERO) of
           Inl e \<Rightarrow> Inl e
         | Inr ratio \<Rightarrow>
             create_allocation_records_loop rule period_id source_cost_center_id ce quantities
               total_qty allocation
               (db\<lparr>db_cost_allocations := db_cost_allocations db @
                      [\<lparr>ca_rule_id = rule_ident rule, ca_period_id = period_id,
                        ca_source_cost_center_id = source_cost_center_id,
                        ca_target_cost_center_id = source_cost_center_id,
                        ca_cost_element = ce, ca_allocated_amount = amount,
                        ca_basis_quantity = qty, ca_ratio = ratio\<rparr>]\<rparr>)))"

definition create_allocation_records ::
  "database \<Rightarrow> AllocationRule \<Rightarrow> ident \<Rightarrow> ident \<Rightarrow> string \<Rightarrow> (ident \<times> decimal) list
     \<Rightarrow> (ident \<times> decimal) list \<Rightarrow> error + database" where
  "create_allocation_records db rule period_id source_cost_center_id cost_element allocation
     quantities =
     (let total_qty = sum_list (map snd quantities);
          ce = element_map cost_element
      in create_allocation_records_loop rule period_id source_cost_center_id ce quantities
           total_qty allocation db)"

text \<open>
  The allocation of one cost element with a non-zero budget in
  \<^verbatim>\<open>execute_rule_based_allocation\<close>: the branch on the matching rule.
\<close>

definition target_ratios :: "AllocationRule \<Rightarrow> (ident \<times> decimal) list" where
  "target_ratios rule =
     fold (\<lambda>t d. AList.update (target_cost_center_id t) (target_ratio t) d) (rule_targets rule) []"

definition allocate_element ::
  "AllocationRule option \<Rightarrow> decimal \<Rightarrow> item_data \<Rightarrow> AllocationBasis
     \<Rightarrow> error + (ident \<times> decimal) list" where
  "allocate_element matching_rule budget_amount item_data default_basis =
     (case matching_rule of
        Some rule \<Rightarrow>
          (if rule_basis rule = manual then
             (if target_ratios rule \<noteq> [] then
                allocate_by_ratio budget_amount (target_ratios rule)
              else
                allocate_by_quantity budget_amount
                  (compute_allocation_quantities default_basis item_data))
           else
             allocate_by_quantity budget_amount
               (compute_allocation_quantities (rule_basis rule) item_data))
      | None \<Rightarrow>
          allocate_by_quantity budget_amount
            (compute_allocation_quantities default_basis item_data))"

text \<open>
  The loop of \<^verbatim>\<open>execute_rule_based_allocation\<close> over \<^verbatim>\<open>budgets.items()\<close>, with the
  session and the dictionary \<^verbatim>\<open>result\<close> as state.  \<open>period_id\<close> is optional, as in the
  source.
\<close>

fun execute_loop ::
  "AllocationRule list \<Rightarrow> ident \<Rightarrow> item_data \<Rightarrow> ident option \<Rightarrow> bool \<Rightarrow> AllocationBasis
     \<Rightarrow> (string \<times> decimal) list \<Rightarrow> database \<Rightarrow> (string \<times> (ident \<times> decimal) list) list
     \<Rightarrow> error + (database \<times> (string \<times> (ident \<times> decimal) list) list)" where
  "execute_loop rules source_cost_center_id item_data period_id simulate default_basis
     [] db result = Inr (db, result)"
| "execute_loop rules source_cost_center_id item_data period_id simulate default_basis
     ((cost_element, budget_amount) # budgets) db result =
     (if budget_amount = ZERO then
        execute_loop rules source_cost_center_id item_data period_id simulate default_basis
          budgets db
          (AList.update cost_element (map (\<lambda>(item_id, _). (item_id, ZERO)) item_data) result)
      else
        (let matching_rule = find_matching_rule rules cost_element in
         case allocate_element matching_rule budget_amount item_data default_basis of
           Inl e \<Rightarrow> Inl e
         | Inr allocation \<Rightarrow>
             (case (if \<not> simulate then
                      (case (period_id, matching_rule) of
                         (Some pid, Some rule) \<Rightarrow>
                           create_allocation_records db rule pid source_cost_center_id
                             cost_element allocation
                             (compute_allocation_quantities
                                (if rule_basis rule \<noteq> manual then rule_basis rule
                                 else default_basis) item_data)
                       | _ \<Rightarrow> Inr db)
                    else Inr db) of
                Inl e \<Rightarrow> Inl e
              | Inr db' \<Rightarrow>
                  execute_loop rules source_cost_center_id item_data period_id simulate
                    default_basis budgets db'
                    (AList.update cost_element allocation result))))"

definition execute_rule_based_allocation ::
  "database \<Rightarrow> ident \<Rightarrow> (string \<times> decimal) list \<Rightarrow> item_data \<Rightarrow> ident option \<Rightarrow> bool
     \<Rightarrow> AllocationBasis
     \<Rightarrow> error + (database \<times> (string \<times> (ident \<times> decimal) list) list)" where
  "execute_rule_based_allocation db source_cost_center_id budgets item_data period_id simulate
     default_basis =
     bindE (load_allocation_rules db source_cost_center_id)
       (\<lambda>rules. execute_loop rules source_cost_center_id item_data period_id simulate
                   default_basis budgets db [])"

section \<open>Standard cost calculation (services/cost_calculation.py)\<close>

text \<open>A dictionary comprehension \<^verbatim>\<open>{str(x.id): x for x in rows}\<close>.\<close>

definition index_by :: "('a \<Rightarrow> ident) \<Rightarrow> 'a list \<Rightarrow> (ident \<times> 'a) list" where
  "index_by key rows = fold (\<lambda>x d. AList.update (key x) x d) rows []"

text \<open>
  The \<^verbatim>\<open>overrides\<close> argument; \<^verbatim>\<open>None\<close> and missing keys are empty dictionaries.
\<close>

record Overrides =
  ov_material_prices :: "(ident \<times> decimal) list"
  ov_budget_changes :: "(ident \<times> (string \<times> decimal) list) list"
  ov_category_rate_changes :: "(string \<times> decimal) list"

fun category_value :: "MaterialCategory \<Rightarrow> string" where
  "category_value fruit = ''fruit''"
| "category_value vegetable = ''vegetable''"
| "category_value grain = ''grain''"
| "category_value seaweed = ''seaweed''"
| "category_value other = ''other''"

definition resolve_material_price ::
  "Material \<Rightarrow> (ident \<times> decimal) list \<Rightarrow> (string \<times> decimal) list \<Rightarrow> decimal" where
  "resolve_material_price mat material_price_overrides category_rate_changes =
     (case map_of material_price_overrides (mat_ident mat) of
        Some p \<Rightarrow> p
      | None \<Rightarrow>
          (let base_price = mat_standard_unit_price mat in
           case (if category_rate_changes \<noteq> [] then mat_category mat else None) of
             Some category \<Rightarrow>
               (case map_of category_rate_changes (category_value category) of
                  Some rate \<Rightarrow> quantize4 (base_price * rate)
                | None \<Rightarrow> base_price)
           | None \<Rightarrow> base_price))"

text \<open>
  \<^verbatim>\<open>_load_bom_headers\<close>: active headers of a type, latest effective date first (headers
  of equal date in table order).  \<^verbatim>\<open>_load_budgets\<close>: the budget of the period whose cost
  center has the given type, through \<^verbatim>\<open>scalar_one_or_none()\<close>.
\<close>

definition load_bom_headers :: "database \<Rightarrow> BomType \<Rightarrow> BomHeader list" where
  "load_bom_headers db bt =
     sort_key (\<lambda>h. - bom_effective_date h)
       (filter (\<lambda>h. bom_type h = bt \<and> bom_is_active h) (db_bom_headers db))"

definition load_budgets :: "database \<Rightarrow> ident \<Rightarrow> CostCenterType \<Rightarrow> error + CostBudget option" where
  "load_budgets db period_id center_type =
     (case filter (\<lambda>b. cb_period_id b = period_id
                     \<and> (\<exists>cc \<in> set (db_cost_centers db).
                           cc_ident cc = cb_cost_center_id b \<and> cc_center_type cc = center_type))
             (db_cost_budgets db) of
        [] \<Rightarrow> Inr None
      | [b] \<Rightarrow> Inr (Some b)
      | _ \<Rightarrow> Inl MultipleResultsFound)"

text \<open>The first header of each owner: \<^verbatim>\<open>if cp_id and cp_id not in cp_bom_map\<close>.\<close>

definition group_boms :: "(BomHeader \<Rightarrow> ident option) \<Rightarrow> BomHeader list \<Rightarrow> (ident \<times> BomHeader) list" where
  "group_boms owner boms =
     fold (\<lambda>bom m. case owner bom of
                      None \<Rightarrow> m
                    | Some owner_id \<Rightarrow>
                        if map_of m owner_id = None then AList.update owner_id bom m else m)
       boms []"

text \<open>A value of \<^verbatim>\<open>bc\<close>, the overrides of one cost center: \<^verbatim>\<open>if name in bc: x = D(str(bc[name]))\<close>.\<close>

definition budget_override :: "(string \<times> decimal) list \<Rightarrow> string \<Rightarrow> decimal \<Rightarrow> decimal" where
  "budget_override bc name current = (case map_of bc name of Some v \<Rightarrow> v | None \<Rightarrow> current)"

definition mfg_budgets ::
  "CostBudget option \<Rightarrow> (ident \<times> (string \<times> decimal) list) list \<Rightarrow> decimal \<times> decimal" where
  "mfg_budgets mfg_budget budget_overrides =
     (case mfg_budget of
        None \<Rightarrow> (ZERO, ZERO)
      | Some b \<Rightarrow>
          (case map_of budget_overrides (cb_cost_center_id b) of
             None \<Rightarrow> (cb_labor_budget b, cb_overhead_budget b)
           | Some bc \<Rightarrow>
               (budget_override bc ''labor_budget'' (cb_labor_budget b),
                budget_override bc ''overhead_budget'' (cb_overhead_budget b))))"

definition prd_budgets ::
  "CostBudget option \<Rightarrow> (ident \<times> (string \<times> decimal) list) list
     \<Rightarrow> decimal \<times> decimal \<times> decimal" where
  "prd_budgets prd_budget budget_overrides =
     (case prd_budget of
        None \<Rightarrow> (ZERO, ZERO, ZERO)
      | Some b \<Rightarrow>
          (case map_of budget_overrides (cb_cost_center_id b) of
             None \<Rightarrow> (cb_labor_budget b, cb_overhead_budget b, cb_outsourcing_budget b)
           | Some bc \<Rightarrow>
               (budget_override bc ''labor_budget'' (cb_labor_budget b),
                budget_override bc ''overhead_budget'' (cb_overhead_budget b),
                budget_override bc ''outsourcing_budget'' (cb_outsourcing_budget b))))"

subsection \<open>Stage 1: crude products\<close>

text \<open>The standard quantity of a crude product: its lines that reference a material.\<close>

definition std_quantity :: "BomHeader \<Rightarrow> decimal" where
  "std_quantity bom =
     sum_list (map (\<lambda>line. line_quantity line * (1 + line_loss_rate line))
                 (filter (\<lambda>line. line_material_id line \<noteq> None) (bom_lines bom)))"

text \<open>
  The allocation of the manufacturing budget: by the rules of the budget's cost center
  when there is a budget, by quantity otherwise.  The result is the session and the two
  dictionaries \<^verbatim>\<open>labor_alloc\<close> and \<^verbatim>\<open>overhead_alloc\<close>.
\<close>

definition stage1_allocation ::
  "database \<Rightarrow> ident \<Rightarrow> bool \<Rightarrow> CostBudget option \<Rightarrow> decimal \<Rightarrow> decimal
     \<Rightarrow> (ident \<times> decimal) list \<Rightarrow> item_data
     \<Rightarrow> error + (database \<times> (ident \<times> decimal) list \<times> (ident \<times> decimal) list)" where
  "stage1_allocation db period_id simulate mfg_budget mfg_labor mfg_overhead cp_std_quantities
     cp_item_data =
     (case mfg_budget of
        Some b \<Rightarrow>
          bindE (execute_rule_based_allocation db (cb_cost_center_id b)
                   [(''labor'', mfg_labor), (''overhead'', mfg_overhead)] cp_item_data
                   (Some period_id) simulate raw_material_quantity)
            (\<lambda>(db', stage1_alloc).
               case (map_of stage1_alloc ''labor'', map_of stage1_alloc ''overhead'') of
                 (Some labor_alloc, Some overhead_alloc) \<Rightarrow> Inr (db', labor_alloc, overhead_alloc)
               | _ \<Rightarrow> Inl KeyError)
      | None \<Rightarrow>
          bindE (allocate_by_quantity mfg_labor cp_std_quantities) (\<lambda>labor_alloc.
          bindE (allocate_by_quantity mfg_overhead cp_std_quantities) (\<lambda>overhead_alloc.
          Inr (db, labor_alloc, overhead_alloc))))"

text \<open>An entry of \<^verbatim>\<open>crude_cost_results\<close>: the dictionary computed for a crude product.\<close>

record CrudeCostData =
  ccd_crude_product_id :: ident
  ccd_period_id :: ident
  ccd_material_cost :: decimal
  ccd_labor_cost :: decimal
  ccd_overhead_cost :: decimal
  ccd_prior_process_cost :: decimal
  ccd_total_cost :: decimal
  ccd_unit_cost :: decimal
  ccd_standard_quantity :: decimal

text \<open>
  The loop over the lines of a crude product's BOM, with \<open>(material_cost,
  prior_process_cost)\<close> as state.
\<close>

fun stage1_lines ::
  "(ident \<times> Material) list \<Rightarrow> (ident \<times> decimal) list \<Rightarrow> (string \<times> decimal) list
     \<Rightarrow> (ident \<times> CrudeCostData) list \<Rightarrow> BomLine list \<Rightarrow> decimal \<times> decimal
     \<Rightarrow> decimal \<times> decimal" where
  "stage1_lines materials material_price_overrides category_rate_changes crude_cost_results []
     (material_cost, prior_process_cost) = (material_cost, prior_process_cost)"
| "stage1_lines materials material_price_overrides category_rate_changes crude_cost_results
     (line # lines) (material_cost, prior_process_cost) =
     stage1_lines materials material_price_overrides category_rate_changes crude_cost_results lines
       (case line_material_id line of
          Some mat_id_str \<Rightarrow>
            (case map_of materials mat_id_str of
               Some mat \<Rightarrow>
                 (let price = resolve_material_price mat material_price_overrides category_rate_changes
                  in (material_cost
                        + quantize4 (price * line_quantity line * (1 + line_loss_rate line)),
                      prior_process_cost))
             | None \<Rightarrow> (material_cost, prior_process_cost))
        | None \<Rightarrow>
            (case line_crude_product_id line of
               Some src_cp_id \<Rightarrow>
                 (case map_of crude_cost_results src_cp_id of
                    Some src \<Rightarrow>
                      (material_cost,
                       prior_process_cost + quantize4 (ccd_unit_cost src * line_quantity line))
                  | None \<Rightarrow> (material_cost, prior_process_cost))
             | None \<Rightarrow> (material_cost, prior_process_cost)))"

text \<open>The body of the loop over \<^verbatim>\<open>sorted_cp_ids\<close>, for a crude product that exists.\<close>

definition stage1_item ::
  "ident \<Rightarrow> (ident \<times> Material) list \<Rightarrow> (ident \<times> decimal) list \<Rightarrow> (string \<times> decimal) list
     \<Rightarrow> (ident \<times> decimal) list \<Rightarrow> (ident \<times> decimal) list \<Rightarrow> (ident \<times> decimal) list
     \<Rightarrow> (ident \<times> CrudeCostData) list \<Rightarrow> ident \<Rightarrow> BomHeader \<Rightarrow> error + CrudeCostData" where
  "stage1_item period_id materials material_price_overrides category_rate_changes cp_std_quantities
     labor_alloc overhead_alloc crude_cost_results cp_id bom =
     (case stage1_lines materials material_price_overrides category_rate_changes crude_cost_results
             (bom_lines bom) (ZERO, ZERO) of
        (material_cost, prior_process_cost) \<Rightarrow>
          (let labor = (case map_of labor_alloc cp_id of Some v \<Rightarrow> v | None \<Rightarrow> ZERO);
               overhead = (case map_of overhead_alloc cp_id of Some v \<Rightarrow> v | None \<Rightarrow> ZERO);
               total_cost = material_cost + labor + overhead + prior_process_cost;
               std_qty = (case map_of cp_std_quantities cp_id of Some v \<Rightarrow> v | None \<Rightarrow> 1)
           in bindE (if std_qty > 0 then
                       bindE (dec_div total_cost std_qty) (\<lambda>q. Inr (quantize4 q))
                     else Inr ZERO)
                (\<lambda>unit_cost.
                   Inr \<lparr>ccd_crude_product_id = cp_id, ccd_period_id = period_id,
                        ccd_material_cost = material_cost, ccd_labor_cost = labor,
                        ccd_overhead_cost = overhead,
                        ccd_prior_process_cost = prior_process_cost,
                        ccd_total_cost = total_cost, ccd_unit_cost = unit_cost,
                        ccd_standard_quantity = std_qty\<rparr>)))"

text \<open>
  \<^verbatim>\<open>sorted_cp_ids\<close>: the keys of \<^verbatim>\<open>cp_bom_map\<close> sorted by the pair of the blend flag
  (1 for a known blend, 0 otherwise) and the identifier.
\<close>

definition blend_flag :: "(ident \<times> CrudeProduct) list \<Rightarrow> ident \<Rightarrow> nat" where
  "blend_flag crude_products cid =
     (case map_of crude_products cid of
        Some cp \<Rightarrow> if cp_is_blend cp then 1 else 0
      | None \<Rightarrow> 0)"

definition sorted_cp_ids ::
  "(ident \<times> CrudeProduct) list \<Rightarrow> (ident \<times> BomHeader) list \<Rightarrow> ident list" where
  "sorted_cp_ids crude_products cp_bom_map =
     sort_key (\<lambda>cid. (blend_flag crude_products cid, cid)) (map fst cp_bom_map)"

fun stage1_loop ::
  "ident \<Rightarrow> (ident \<times> Material) list \<Rightarrow> (ident \<times> CrudeProduct) list \<Rightarrow> (ident \<times> decimal) list
     \<Rightarrow> (string \<times> decimal) list \<Rightarrow> (ident \<times> BomHeader) list \<Rightarrow> (ident \<times> decimal) list
     \<Rightarrow> (ident \<times> decimal) list \<Rightarrow> (ident \<times> decimal) list \<Rightarrow> ident list
     \<Rightarrow> (ident \<times> CrudeCostData) list \<Rightarrow> error + (ident \<times> CrudeCostData) list" where
  "stage1_loop period_id materials crude_products material_price_overrides category_rate_changes
     cp_bom_map cp_std_quantities labor_alloc overhead_alloc [] crude_cost_results =
     Inr crude_cost_results"
| "stage1_loop period_id materials crude_products material_price_overrides category_rate_changes
     cp_bom_map cp_std_quantities labor_alloc overhead_alloc (cp_id # ids) crude_cost_results =
     (case map_of cp_bom_map cp_id of
        None \<Rightarrow> Inl KeyError
      | Some bom \<Rightarrow>
          (case map_of crude_products cp_id of
             None \<Rightarrow>
               stage1_loop period_id materials crude_products material_price_overrides
                 category_rate_changes cp_bom_map cp_std_quantities labor_alloc overhead_alloc ids
                 crude_cost_results
           | Some cp \<Rightarrow>
               bindE (stage1_item period_id materials material_price_overrides category_rate_changes
                        cp_std_quantities labor_alloc overhead_alloc crude_cost_results
                        cp_id bom)
                 (\<lambda>data.
                    stage1_loop period_id materials crude_products material_price_overrides
                      category_rate_changes cp_bom_map cp_std_quantities labor_alloc overhead_alloc ids
                      (AList.update cp_id data crude_cost_results))))"

text \<open>
  Stage 1 from the loaded master data, the BOM map and the two allocations to
  \<^verbatim>\<open>crude_cost_results\<close>.
\<close>

definition stage1_costs ::
  "ident \<Rightarrow> (ident \<times> Material) list \<Rightarrow> (ident \<times> CrudeProduct) list \<Rightarrow> (ident \<times> decimal) list
     \<Rightarrow> (string \<times> decimal) list \<Rightarrow> (ident \<times> BomHeader) list
     \<Rightarrow> (ident \<times> decimal) list \<Rightarrow> (ident \<times> decimal) list
     \<Rightarrow> error + (ident \<times> CrudeCostData) list" where
  "stage1_costs period_id materials crude_products material_price_overrides category_rate_changes
     cp_bom_map labor_alloc overhead_alloc =
     stage1_loop period_id materials crude_products material_price_overrides category_rate_changes
       cp_bom_map (map (\<lambda>(cp_id, bom). (cp_id, std_quantity bom)) cp_bom_map)
       labor_alloc overhead_alloc (sorted_cp_ids crude_products cp_bom_map) []"

subsection \<open>Stage 2: finished products\<close>

text \<open>
  The allocation basis of a product: its content weight when set and not zero, otherwise
  the sum of the quantities of its BOM lines, or 1 when that sum is not positive.
\<close>

definition product_weight :: "(ident \<times> Product) list \<Rightarrow> ident \<Rightarrow> BomHeader \<Rightarrow> decimal" where
  "product_weight all_products p_id bom =
     (case (case map_of all_products p_id of
              Some prd \<Rightarrow>
                (case prod_content_weight_g prd of
                   Some w \<Rightarrow> if w \<noteq> 0 then Some w else None
                 | None \<Rightarrow> None)
            | None \<Rightarrow> None) of
        Some w \<Rightarrow> w
      | None \<Rightarrow>
          (let total_qty = sum_list (map line_quantity (bom_lines bom))
           in if total_qty > 0 then total_qty else 1))"

definition stage2_allocation ::
  "database \<Rightarrow> ident \<Rightarrow> bool \<Rightarrow> CostBudget option \<Rightarrow> decimal \<Rightarrow> decimal \<Rightarrow> decimal
     \<Rightarrow> (ident \<times> decimal) list \<Rightarrow> item_data
     \<Rightarrow> error + (database \<times> (ident \<times> decimal) list \<times> (ident \<times> decimal) list
                 \<times> (ident \<times> decimal) list)" where
  "stage2_allocation db period_id simulate prd_budget prd_labor prd_overhead prd_outsourcing
     prod_alloc_quantities prod_item_data =
     (case prd_budget of
        Some b \<Rightarrow>
          bindE (execute_rule_based_allocation db (cb_cost_center_id b)
                   [(''labor'', prd_labor), (''overhead'', prd_overhead),
                    (''outsourcing'', prd_outsourcing)] prod_item_data
                   (Some period_id) simulate weight_based)
            (\<lambda>(db', stage2_alloc).
               case (map_of stage2_alloc ''labor'', map_of stage2_alloc ''overhead'',
                     map_of stage2_alloc ''outsourcing'') of
                 (Some labor_alloc, Some overhead_alloc, Some outsourcing_alloc) \<Rightarrow>
                   Inr (db', labor_alloc, overhead_alloc, outsourcing_alloc)
               | _ \<Rightarrow> Inl KeyError)
      | None \<Rightarrow>
          bindE (allocate_by_quantity prd_labor prod_alloc_quantities) (\<lambda>labor_alloc.
          bindE (allocate_by_quantity prd_overhead prod_alloc_quantities) (\<lambda>overhead_alloc.
          bindE (allocate_by_quantity prd_outsourcing prod_alloc_quantities)
            (\<lambda>outsourcing_alloc.
          Inr (db, labor_alloc, overhead_alloc, outsourcing_alloc)))))"

text \<open>
  An entry of \<^verbatim>\<open>product_cost_results\<close>.  (The variable \<^verbatim>\<open>prod\<close> of the source is
  \<open>prd\<close> below.)
\<close>

record ProductCostData =
  pcd_product_id :: ident
  pcd_period_id :: ident
  pcd_crude_product_cost :: decimal
  pcd_packaging_cost :: decimal
  pcd_labor_cost :: decimal
  pcd_overhead_cost :: decimal
  pcd_outsourcing_cost :: decimal
  pcd_total_cost :: decimal
  pcd_unit_cost :: decimal
  pcd_lot_size :: decimal

text \<open>
  The loop over the lines of a product's BOM, with \<open>(crude_cost, packaging_cost)\<close> as
  state; here the crude-product reference is tested first.
\<close>

fun stage2_lines ::
  "(ident \<times> Material) list \<Rightarrow> (ident \<times> decimal) list \<Rightarrow> (string \<times> decimal) list
     \<Rightarrow> (ident \<times> CrudeCostData) list \<Rightarrow> BomLine list \<Rightarrow> decimal \<times> decimal
     \<Rightarrow> decimal \<times> decimal" where
  "stage2_lines materials material_price_overrides category_rate_changes crude_cost_results []
     (crude_cost, packaging_cost) = (crude_cost, packaging_cost)"
| "stage2_lines materials material_price_overrides category_rate_changes crude_cost_results
     (line # lines) (crude_cost, packaging_cost) =
     stage2_lines materials material_price_overrides category_rate_changes crude_cost_results
       lines
       (case line_crude_product_id line of
          Some cp_id_str \<Rightarrow>
            (case map_of crude_cost_results cp_id_str of
               Some src \<Rightarrow>
                 (crude_cost + quantize4 (ccd_unit_cost src * line_quantity line),
                  packaging_cost)
             | None \<Rightarrow> (crude_cost, packaging_cost))
        | None \<Rightarrow>
            (case line_material_id line of
               Some mat_id_str \<Rightarrow>
                 (case map_of materials mat_id_str of
                    Some mat \<Rightarrow>
                      (let price = resolve_material_price mat material_price_overrides
                                     category_rate_changes
                       in (crude_cost,
                           packaging_cost
                             + quantize4 (price * line_quantity line
                                            * (1 + line_loss_rate line))))
                  | None \<Rightarrow> (crude_cost, packaging_cost))
             | None \<Rightarrow> (crude_cost, packaging_cost)))"

definition stage2_item ::
  "ident \<Rightarrow> (ident \<times> Material) list \<Rightarrow> (ident \<times> decimal) list \<Rightarrow> (string \<times> decimal) list
     \<Rightarrow> (ident \<times> CrudeCostData) list \<Rightarrow> (ident \<times> decimal) list \<Rightarrow> (ident \<times> decimal) list
     \<Rightarrow> (ident \<times> decimal) list \<Rightarrow> ident \<Rightarrow> BomHeader \<Rightarrow> Product
     \<Rightarrow> error + ProductCostData" where
  "stage2_item period_id materials material_price_overrides category_rate_changes
     crude_cost_results prod_labor_alloc prod_overhead_alloc prod_outsourcing_alloc p_id bom
     prd =
     (case stage2_lines materials material_price_overrides category_rate_changes
             crude_cost_results (bom_lines bom) (ZERO, ZERO) of
        (crude_cost, packaging_cost) \<Rightarrow>
          (let labor = (case map_of prod_labor_alloc p_id of Some v \<Rightarrow> v | None \<Rightarrow> ZERO);
               overhead = (case map_of prod_overhead_alloc p_id of Some v \<Rightarrow> v | None \<Rightarrow> ZERO);
               outsourcing =
                 (case map_of prod_outsourcing_alloc p_id of Some v \<Rightarrow> v | None \<Rightarrow> ZERO);
               total_cost = crude_cost + packaging_cost + labor + overhead + outsourcing;
               lot_size = (if prod_standard_lot_size prd \<noteq> 0 \<and> prod_standard_lot_size prd > 0
                           then prod_standard_lot_size prd else 1)
           in bindE (bindE (dec_div total_cost lot_size) (\<lambda>q. Inr (quantize4 q)))
                (\<lambda>unit_cost.
                   Inr \<lparr>pcd_product_id = p_id, pcd_period_id = period_id,
                        pcd_crude_product_cost = crude_cost,
                        pcd_packaging_cost = packaging_cost, pcd_labor_cost = labor,
                        pcd_overhead_cost = overhead, pcd_outsourcing_cost = outsourcing,
                        pcd_total_cost = total_cost, pcd_unit_cost = unit_cost,
                        pcd_lot_size = lot_size\<rparr>)))"

fun stage2_loop ::
  "ident \<Rightarrow> (ident \<times> Material) list \<Rightarrow> (ident \<times> Product) list \<Rightarrow> (ident \<times> decimal) list
     \<Rightarrow> (string \<times> decimal) list \<Rightarrow> (ident \<times> CrudeCostData) list \<Rightarrow> (ident \<times> decimal) list
     \<Rightarrow> (ident \<times> decimal) list \<Rightarrow> (ident \<times> decimal) list \<Rightarrow> (ident \<times> BomHeader) list
     \<Rightarrow> (ident \<times> ProductCostData) list \<Rightarrow> error + (ident \<times> ProductCostData) list" where
  "stage2_loop period_id materials all_products material_price_overrides category_rate_changes
     crude_cost_results prod_labor_alloc prod_overhead_alloc prod_outsourcing_alloc []
     product_cost_results = Inr product_cost_results"
| "stage2_loop period_id materials all_products material_price_overrides category_rate_changes
     crude_cost_results prod_labor_alloc prod_overhead_alloc prod_outsourcing_alloc
     ((p_id, bom) # prod_bom_map) product_cost_results =
     (case map_of all_products p_id of
        None \<Rightarrow>
          stage2_loop period_id materials all_products material_price_overrides
            category_rate_changes crude_cost_results prod_labor_alloc prod_overhead_alloc
            prod_outsourcing_alloc prod_bom_map product_cost_results
      | Some prd \<Rightarrow>
          bindE (stage2_item period_id materials material_price_overrides category_rate_changes
                   crude_cost_results prod_labor_alloc prod_overhead_alloc
                   prod_outsourcing_alloc p_id bom prd)
            (\<lambda>data.
               stage2_loop period_id materials all_products material_price_overrides
                 category_rate_changes crude_cost_results prod_labor_alloc prod_overhead_alloc
                 prod_outsourcing_alloc prod_bom_map
                 (AList.update p_id data product_cost_results)))"

subsection \<open>The two stages and the persistence of their results\<close>

text \<open>
  \<^verbatim>\<open>calculate_standard_costs\<close> up to the comment \<^verbatim>\<open>Save to DB\<close>, in its two stages:
  the session after the allocations, \<^verbatim>\<open>crude_cost_results\<close> and
  \<^verbatim>\<open>product_cost_results\<close>.  The master data are loaded before Stage 1.  An empty
  \<open>product_ids\<close> stands for \<^verbatim>\<open>None\<close> as well.
\<close>

definition stage1 ::
  "database \<Rightarrow> ident \<Rightarrow> bool \<Rightarrow> Overrides
     \<Rightarrow> error + (database \<times> (ident \<times> CrudeCostData) list)" where
  "stage1 db period_id simulate overrides =
     (let materials = index_by mat_ident (filter mat_is_active (db_materials db));
          crude_products = index_by cp_ident (filter cp_is_active (db_crude_products db));
          stage1_boms = load_bom_headers db raw_material_process;
          cp_bom_map = group_boms bom_crude_product_id stage1_boms;
          cp_std_quantities = map (\<lambda>(cp_id, bom). (cp_id, std_quantity bom)) cp_bom_map;
          cp_item_data =
            map (\<lambda>(cp_id, bom). (cp_id, [(''raw_material_quantity'', std_quantity bom)]))
              cp_bom_map
      in bindE (load_budgets db period_id cct_manufacturing) (\<lambda>mfg_budget.
         bindE (stage1_allocation db period_id simulate mfg_budget
                  (fst (mfg_budgets mfg_budget (ov_budget_changes overrides)))
                  (snd (mfg_budgets mfg_budget (ov_budget_changes overrides)))
                  cp_std_quantities cp_item_data)
           (\<lambda>(db1, labor_alloc, overhead_alloc).
         bindE (stage1_costs period_id materials crude_products (ov_material_prices overrides)
                  (ov_category_rate_changes overrides) cp_bom_map labor_alloc overhead_alloc)
           (\<lambda>crude_cost_results. Inr (db1, crude_cost_results)))))"

definition stage2 ::
  "database \<Rightarrow> ident \<Rightarrow> ident list \<Rightarrow> bool \<Rightarrow> Overrides \<Rightarrow> (ident \<times> Material) list
     \<Rightarrow> (ident \<times> Product) list \<Rightarrow> (ident \<times> CrudeCostData) list
     \<Rightarrow> error + (database \<times> (ident \<times> ProductCostData) list)" where
  "stage2 db1 period_id product_ids simulate overrides materials all_products
     crude_cost_results =
     (let stage2_boms = load_bom_headers db1 product_process;
          grouped = group_boms bom_product_id stage2_boms;
          prod_bom_map =
            (if product_ids \<noteq> [] then filter (\<lambda>(k, v). k \<in> set product_ids) grouped
             else grouped);
          prod_alloc_quantities =
            map (\<lambda>(p_id, bom). (p_id, product_weight all_products p_id bom)) prod_bom_map;
          prod_item_data =
            map (\<lambda>(p_id, bom).
                   (p_id, [(''weight'', product_weight all_products p_id bom),
                           (''raw_material_quantity'', product_weight all_products p_id bom)]))
              prod_bom_map
      in bindE (load_budgets db1 period_id cct_product) (\<lambda>prd_budget.
         bindE (stage2_allocation db1 period_id simulate prd_budget
                  (fst (prd_budgets prd_budget (ov_budget_changes overrides)))
                  (fst (snd (prd_budgets prd_budget (ov_budget_changes overrides))))
                  (snd (snd (prd_budgets prd_budget (ov_budget_changes overrides))))
                  prod_alloc_quantities prod_item_data)
           (\<lambda>(db2, prod_labor_alloc, prod_overhead_alloc, prod_outsourcing_alloc).
         bindE (stage2_loop period_id materials all_products (ov_material_prices overrides)
                  (ov_category_rate_changes overrides) crude_cost_results prod_labor_alloc
                  prod_overhead_alloc prod_outsourcing_alloc prod_bom_map [])
           (\<lambda>product_cost_results. Inr (db2, product_cost_results)))))"

definition compute_standard_costs ::
  "database \<Rightarrow> ident \<Rightarrow> ident list \<Rightarrow> bool \<Rightarrow> Overrides
     \<Rightarrow> error + (database \<times> (ident \<times> CrudeCostData) list \<times> (ident \<times> ProductCostData) list)" where
  "compute_standard_costs db period_id product_ids simulate overrides =
     (let materials = index_by mat_ident (filter mat_is_active (db_materials db));
          all_products = index_by prod_ident (filter prod_is_active (db_products db))
      in bindE (stage1 db period_id simulate overrides) (\<lambda>(db1, crude_cost_results).
         bindE (stage2 db1 period_id product_ids simulate overrides materials all_products
                  crude_cost_results)
           (\<lambda>(db2, product_cost_results).
              Inr (db2, crude_cost_results, product_cost_results))))"

text \<open>
  The upsert of one computed dictionary: the row of the same item and period is
  overwritten (its \<^verbatim>\<open>notes\<close> stay), or a new row is added; the row is returned.
\<close>

definition upsert_crude ::
  "CrudeProductStandardCost list \<Rightarrow> CrudeCostData
     \<Rightarrow> error + (CrudeProductStandardCost list \<times> CrudeProductStandardCost)" where
  "upsert_crude table cp_data =
     (case filter (\<lambda>r. cpsc_crude_product_id r = ccd_crude_product_id cp_data
                     \<and> cpsc_period_id r = ccd_period_id cp_data) table of
        [] \<Rightarrow>
          (let record = \<lparr>cpsc_crude_product_id = ccd_crude_product_id cp_data,
                         cpsc_period_id = ccd_period_id cp_data,
                         cpsc_material_cost = ccd_material_cost cp_data,
                         cpsc_labor_cost = ccd_labor_cost cp_data,
                         cpsc_overhead_cost = ccd_overhead_cost cp_data,
                         cpsc_prior_process_cost = ccd_prior_process_cost cp_data,
                         cpsc_total_cost = ccd_total_cost cp_data,
                         cpsc_unit_cost = ccd_unit_cost cp_data,
                         cpsc_standard_quantity = ccd_standard_quantity cp_data,
                         cpsc_notes = None\<rparr>
           in Inr (table @ [record], record))
      | [existing] \<Rightarrow>
          (let record = existing\<lparr>cpsc_material_cost := ccd_material_cost cp_data,
                                 cpsc_labor_cost := ccd_labor_cost cp_data,
                                 cpsc_overhead_cost := ccd_overhead_cost cp_data,
                                 cpsc_prior_process_cost := ccd_prior_process_cost cp_data,
                                 cpsc_total_cost := ccd_total_cost cp_data,
                                 cpsc_unit_cost := ccd_unit_cost cp_data,
                                 cpsc_standard_quantity := ccd_standard_quantity cp_data\<rparr>
           in Inr (map (\<lambda>r. if cpsc_crude_product_id r = ccd_crude_product_id cp_data
                                \<and> cpsc_period_id r = ccd_period_id cp_data
                              then record else r) table,
                   record))
      | _ \<Rightarrow> Inl MultipleResultsFound)"

definition upsert_product ::
  "StandardCost list \<Rightarrow> ProductCostData \<Rightarrow> error + (StandardCost list \<times> StandardCost)" where
  "upsert_product table p_data =
     (case filter (\<lambda>r. sc_product_id r = pcd_product_id p_data
                     \<and> sc_period_id r = pcd_period_id p_data) table of
        [] \<Rightarrow>
          (let record = \<lparr>sc_product_id = pcd_product_id p_data,
                         sc_period_id = pcd_period_id p_data,
                         sc_crude_product_cost = pcd_crude_product_cost p_data,
                         sc_packaging_cost = pcd_packaging_cost p_data,
                         sc_labor_cost = pcd_labor_cost p_data,
                         sc_overhead_cost = pcd_overhead_cost p_data,
                         sc_outsourcing_cost = pcd_outsourcing_cost p_data,
                         sc_total_cost = pcd_total_cost p_data,
                         sc_unit_cost = pcd_unit_cost p_data,
                         sc_lot_size = pcd_lot_size p_data,
                         sc_notes = None\<rparr>
           in Inr (table @ [record], record))
      | [existing] \<Rightarrow>
          (let record = existing\<lparr>sc_crude_product_cost := pcd_crude_product_cost p_data,
                                 sc_packaging_cost := pcd_packaging_cost p_data,
                                 sc_labor_cost := pcd_labor_cost p_data,
                                 sc_overhead_cost := pcd_overhead_cost p_data,
                                 sc_outsourcing_cost := pcd_outsourcing_cost p_data,
                                 sc_total_cost := pcd_total_cost p_data,
                                 sc_unit_cost := pcd_unit_cost p_data,
                                 sc_lot_size := pcd_lot_size p_data\<rparr>
           in Inr (map (\<lambda>r. if sc_product_id r = pcd_product_id p_data
                                \<and> sc_period_id r = pcd_period_id p_data
                              then record else r) table,
                   record))
      | _ \<Rightarrow> Inl MultipleResultsFound)"

text \<open>The two persistence loops: the table and the list of records returned.\<close>

fun upsert_all :: "('t \<Rightarrow> 'd \<Rightarrow> error + ('t \<times> 'r)) \<Rightarrow> 'd list \<Rightarrow> 't \<Rightarrow> 'r list \<Rightarrow> error + ('t \<times> 'r list)" where
  "upsert_all upsert [] table records = Inr (table, records)"
| "upsert_all upsert (data # rest) table records =
     bindE (upsert table data)
       (\<lambda>(table', record). upsert_all upsert rest table' (records @ [record]))"

text \<open>
  The returned dictionary.  \<^verbatim>\<open>crude_product_costs\<close> and \<^verbatim>\<open>product_costs\<close> are the
  computed dictionaries when simulating (\<open>Inl\<close>) and the persisted records otherwise
  (\<open>Inr\<close>).
\<close>

record CalculationResult =
  res_period_id :: ident
  res_crude_products_calculated :: nat
  res_products_calculated :: nat
  res_total_crude_product_cost :: decimal
  res_total_product_cost :: decimal
  res_crude_product_costs :: "CrudeCostData list + CrudeProductStandardCost list"
  res_product_costs :: "ProductCostData list + StandardCost list"

definition calculate_standard_costs ::
  "database \<Rightarrow> ident \<Rightarrow> ident list \<Rightarrow> bool \<Rightarrow> Overrides
     \<Rightarrow> error + (database \<times> CalculationResult)" where
  "calculate_standard_costs db period_id product_ids simulate overrides =
     bindE (compute_standard_costs db period_id product_ids simulate overrides)
       (\<lambda>(db2, crude_cost_results, product_cost_results).
          bindE (if \<not> simulate then
                   bindE (upsert_all upsert_crude (map snd crude_cost_results)
                            (db_crude_product_standard_costs db2) [])
                     (\<lambda>(crude_table, crude_cost_records).
                   bindE (upsert_all upsert_product (map snd product_cost_results)
                            (db_standard_costs db2) [])
                     (\<lambda>(product_table, product_cost_records).
                   Inr (db2\<lparr>db_crude_product_standard_costs := crude_table,
                            db_standard_costs := product_table\<rparr>,
                        Inr crude_cost_records, Inr product_cost_records)))
                 else Inr (db2, Inl (map snd crude_cost_results),
                           Inl (map snd product_cost_results)))
            (\<lambda>(db3, crude_product_costs, product_costs).
               Inr (db3,
                    \<lparr>res_period_id = period_id,
                     res_crude_products_calculated = length crude_cost_results,
                     res_products_calculated = length product_cost_results,
                     res_total_crude_product_cost =
                       sum_list (map (\<lambda>(k, d). ccd_total_cost d) crude_cost_results),
                     res_total_product_cost =
                       sum_list (map (\<lambda>(k, d). pcd_total_cost d) product_cost_results),
                     res_crude_product_costs = crude_product_costs,
                     res_product_costs = product_costs\<rparr>)))"

section \<open>Variance analysis (services/variance_analysis.py)\<close>

definition HUNDRED :: decimal where
  "HUNDRED = 100"

definition COST_ELEMENTS :: "string list" where
  "COST_ELEMENTS =
     [''crude_product_cost'', ''packaging_cost'', ''labor_cost'', ''overhead_cost'',
      ''outsourcing_cost'']"

text \<open>\<^verbatim>\<open>D(str(getattr(row, field_name, 0) or 0))\<close> on a standard and on an actual row.\<close>

definition sc_getattr :: "StandardCost \<Rightarrow> string \<Rightarrow> decimal" where
  "sc_getattr sc field_name =
     (if field_name = ''crude_product_cost'' then sc_crude_product_cost sc
      else if field_name = ''packaging_cost'' then sc_packaging_cost sc
      else if field_name = ''labor_cost'' then sc_labor_cost sc
      else if field_name = ''overhead_cost'' then sc_overhead_cost sc
      else if field_name = ''outsourcing_cost'' then sc_outsourcing_cost sc
      else 0)"

definition ac_getattr :: "ActualCost \<Rightarrow> string \<Rightarrow> decimal" where
  "ac_getattr ac field_name =
     (if field_name = ''crude_product_cost'' then ac_crude_product_cost ac
      else if field_name = ''packaging_cost'' then ac_packaging_cost ac
      else if field_name = ''labor_cost'' then ac_labor_cost ac
      else if field_name = ''overhead_cost'' then ac_overhead_cost ac
      else if field_name = ''outsourcing_cost'' then ac_outsourcing_cost ac
      else 0)"

definition calc_percent :: "decimal \<Rightarrow> decimal \<Rightarrow> error + decimal" where
  "calc_percent variance standard =
     (if standard = ZERO then Inr ZERO
      else (case dec_div variance standard of
              Inl e \<Rightarrow> Inl e
            | Inr q \<Rightarrow> Inr (quantize4 (q * HUNDRED))))"

text \<open>A loop whose body may raise: the first error ends it.\<close>

fun mapE :: "('a \<Rightarrow> error + 'b) \<Rightarrow> 'a list \<Rightarrow> error + 'b list" where
  "mapE f [] = Inr []"
| "mapE f (x # xs) =
     (case f x of
        Inl e \<Rightarrow> Inl e
      | Inr y \<Rightarrow> (case mapE f xs of Inl e \<Rightarrow> Inl e | Inr ys \<Rightarrow> Inr (y # ys)))"

text \<open>
  The body of the innermost loop of \<^verbatim>\<open>analyze_variances\<close>: the record written for
  one cost element and one actual-cost row of a product.
\<close>

definition variance_record ::
  "ident \<Rightarrow> decimal \<Rightarrow> ident \<Rightarrow> string \<Rightarrow> decimal \<Rightarrow> ActualCost \<Rightarrow> error + VarianceRecord" where
  "variance_record period_id threshold_percent pid field_name std_val ac =
     (let ac_std = std_val;
          ac_act = ac_getattr ac field_name;
          ac_variance = ac_act - ac_std
      in case calc_percent ac_variance ac_std of
           Inl e \<Rightarrow> Inl e
         | Inr ac_pct \<Rightarrow>
             (let ac_favorable = (ac_variance \<le> ZERO);
                  is_flagged = (\<bar>ac_pct\<bar> > threshold_percent);
                  flag_reason =
                    (if is_flagged then Some (field_name, ac_favorable, threshold_percent, ac_pct)
                     else None)
              in Inr \<lparr>vr_product_id = pid, vr_cost_center_id = ac_cost_center_id ac,
                      vr_period_id = period_id, vr_variance_type = price,
                      vr_cost_element = field_name, vr_standard_amount = ac_std,
                      vr_actual_amount = ac_act, vr_variance_amount = ac_variance,
                      vr_variance_percent = ac_pct, vr_is_favorable = ac_favorable,
                      vr_is_flagged = is_flagged, vr_flag_reason = flag_reason\<rparr>))"

text \<open>
  The dictionaries \<^verbatim>\<open>standard_costs\<close> (a later row of a product replaces an earlier
  one) and \<^verbatim>\<open>actual_by_product\<close> (\<^verbatim>\<open>setdefault(pid, []).append(ac)\<close>).
\<close>

definition standard_costs_by_product :: "StandardCost list \<Rightarrow> (ident \<times> StandardCost) list" where
  "standard_costs_by_product rows = fold (\<lambda>sc d. AList.update (sc_product_id sc) sc d) rows []"

definition group_actual_by_product :: "ActualCost list \<Rightarrow> (ident \<times> ActualCost list) list" where
  "group_actual_by_product rows =
     fold (\<lambda>ac d. AList.update (ac_product_id ac)
                      (case map_of d (ac_product_id ac) of None \<Rightarrow> [ac] | Some l \<Rightarrow> l @ [ac]) d)
       rows []"

text \<open>
  The records \<^verbatim>\<open>analyze_variances\<close> adds, in the order of its three nested loops:
  products with both a standard and an actual cost, sorted by identifier; the five cost
  elements; the actual-cost rows of the product.  \<open>std_rows\<close> and \<open>act_rows\<close> are
  the results of the two queries.
\<close>

definition product_variance_records ::
  "ident \<Rightarrow> decimal \<Rightarrow> ident \<Rightarrow> StandardCost \<Rightarrow> ActualCost list \<Rightarrow> error + VarianceRecord list" where
  "product_variance_records period_id threshold_percent pid sc actuals =
     (case mapE (\<lambda>field_name.
                   mapE (variance_record period_id threshold_percent pid field_name
                           (sc_getattr sc field_name)) actuals)
             COST_ELEMENTS of
        Inl e \<Rightarrow> Inl e
      | Inr rss \<Rightarrow> Inr (concat rss))"

definition new_variance_records ::
  "ident \<Rightarrow> decimal \<Rightarrow> StandardCost list \<Rightarrow> ActualCost list \<Rightarrow> error + VarianceRecord list" where
  "new_variance_records period_id threshold_percent std_rows act_rows =
     (let standard_costs = standard_costs_by_product std_rows;
          actual_by_product = group_actual_by_product act_rows;
          all_product_ids =
            filter (\<lambda>pid. map_of actual_by_product pid \<noteq> None) (map fst standard_costs)
      in case mapE (\<lambda>pid.
                      case (map_of standard_costs pid, map_of actual_by_product pid) of
                        (Some sc, Some actuals) \<Rightarrow>
                          product_variance_records period_id threshold_percent pid sc actuals
                      | _ \<Rightarrow> Inl KeyError)
                (sort all_product_ids) of
           Inl e \<Rightarrow> Inl e
         | Inr rss \<Rightarrow> Inr (concat rss))"

text \<open>
  \<^verbatim>\<open>analyze_variances\<close>: the two queries, the deletion of the period's records (of
  the given products, when \<^verbatim>\<open>product_ids\<close> is given and not empty), the new records,
  their flush at the end of the function and the counters of the returned summary.  An empty \<open>product_ids\<close> stands for
  \<^verbatim>\<open>None\<close> as well: \<^verbatim>\<open>if product_ids:\<close> treats both alike.  The per-product
  \<^verbatim>\<open>details\<close> of the summary are left out.
\<close>

record AnalysisSummary =
  as_period_id :: ident
  as_products_analyzed :: nat
  as_records_created :: nat
  as_flagged_count :: nat
  as_total_standard :: decimal
  as_total_actual :: decimal
  as_total_variance :: decimal

definition aggregate_actual_costs :: "ActualCost list \<Rightarrow> (string \<times> decimal) list" where
  "aggregate_actual_costs actuals =
     map (\<lambda>field_name. (field_name, sum_list (map (\<lambda>ac. ac_getattr ac field_name) actuals)))
       COST_ELEMENTS"

text \<open>
  A value written to a column \<^verbatim>\<open>Numeric(p, 4)\<close> is rounded by the database to 4
  decimal places (ties away from zero) and refused, with an error of the flush, when it
  then needs more than \<open>p - 4\<close> digits before the decimal point.  \<open>is_dec4\<close> holds of
  the values with at most 4 decimal places; every value read from such a column is one.
\<close>

definition is_dec4 :: "decimal \<Rightarrow> bool" where
  "is_dec4 x = (quantize4 x = x)"

definition store_numeric :: "nat \<Rightarrow> decimal \<Rightarrow> error + decimal" where
  "store_numeric p x =
     (let y = quantize4 x in if \<bar>y\<bar> \<ge> 10 ^ (p - 4) then Inl DataError else Inr y)"

text \<open>The values a column \<^verbatim>\<open>Numeric(p, 4)\<close> holds: those it stores unchanged.\<close>

definition is_numeric :: "nat \<Rightarrow> decimal \<Rightarrow> bool" where
  "is_numeric p x = (store_numeric p x = Inr x)"

text \<open>
  The flush of a new variance record: three amounts in \<^verbatim>\<open>Numeric(18, 4)\<close> columns and
  the percentage in a \<^verbatim>\<open>Numeric(8, 4)\<close> column.
\<close>

definition flush_variance_record :: "VarianceRecord \<Rightarrow> error + VarianceRecord" where
  "flush_variance_record r =
     bindE (store_numeric 18 (vr_standard_amount r)) (\<lambda>standard_amount.
     bindE (store_numeric 18 (vr_actual_amount r)) (\<lambda>actual_amount.
     bindE (store_numeric 18 (vr_variance_amount r)) (\<lambda>variance_amount.
     bindE (store_numeric 8 (vr_variance_percent r)) (\<lambda>variance_percent.
     Inr (r\<lparr>vr_standard_amount := standard_amount, vr_actual_amount := actual_amount,
             vr_variance_amount := variance_amount,
             vr_variance_percent := variance_percent\<rparr>)))))"

definition analyze_variances ::
  "database \<Rightarrow> ident \<Rightarrow> ident list \<Rightarrow> decimal \<Rightarrow> error + (database \<times> AnalysisSummary)" where
  "analyze_variances db period_id product_ids threshold_percent =
     (let std_rows = filter (\<lambda>sc. sc_period_id sc = period_id
                          \<and> (product_ids = [] \<or> sc_product_id sc \<in> set product_ids))
                       (db_standard_costs db);
          act_rows = filter (\<lambda>ac. ac_period_id ac = period_id
                          \<and> (product_ids = [] \<or> ac_product_id ac \<in> set product_ids))
                       (db_actual_costs db);
          kept = filter (\<lambda>r. \<not> (vr_period_id r = period_id
                          \<and> (product_ids = [] \<or> vr_product_id r \<in> set product_ids)))
                   (db_variance_records db);
          standard_costs = standard_costs_by_product std_rows;
          actual_by_product = group_actual_by_product act_rows;
          all_product_ids =
            filter (\<lambda>pid. map_of actual_by_product pid \<noteq> None) (map fst standard_costs);
          total_standard =
            sum_list (map (\<lambda>pid. case map_of standard_costs pid of
                                    None \<Rightarrow> 0
                                  | Some sc \<Rightarrow> sum_list (map (sc_getattr sc) COST_ELEMENTS))
                        (sort all_product_ids));
          total_actual =
            sum_list (map (\<lambda>pid. case map_of actual_by_product pid of
                                    None \<Rightarrow> 0
                                  | Some actuals \<Rightarrow>
                                      sum_list (map snd (aggregate_actual_costs actuals)))
                        (sort all_product_ids))
      in bindE (new_variance_records period_id threshold_percent std_rows act_rows)
           (\<lambda>records.
         bindE (mapE flush_variance_record records) (\<lambda>stored.
           Inr (db\<lparr>db_variance_records := kept @ stored\<rparr>,
                \<lparr>as_period_id = period_id,
                 as_products_analyzed = length all_product_ids,
                 as_records_created = length records,
                 as_flagged_count = length (filter vr_is_flagged records),
                 as_total_standard = total_standard,
                 as_total_actual = total_actual,
                 as_total_variance = total_actual - total_standard\<rparr>))))"

text \<open>
  In \<^verbatim>\<open>get_variance_summary\<close>, the average of the percentages of one cost element:
  \<^verbatim>\<open>(sum(pcts) / D(str(len(pcts)))).quantize(FOUR, ROUND_HALF_UP) if pcts else ZERO\<close>.
\<close>

definition average_variance_percent :: "decimal list \<Rightarrow> error + decimal" where
  "average_variance_percent pcts =
     (if pcts \<noteq> [] then
        bindE (dec_div (sum_list pcts) (of_nat (length pcts))) (\<lambda>q. Inr (quantize4 q))
      else Inr ZERO)"

section \<open>Reconciliation (services/reconciliation.py)\<close>






section \<open>Period copy (services/cost_calculation.py, copy_standard_costs)\<close>

text \<open>
  The two loops of \<^verbatim>\<open>copy_standard_costs\<close> are the same text over two tables.  The
  loop is written once, over the rows of a table: \<open>key\<close> and \<open>period\<close> read the item
  and the period of a row, \<open>set_columns src r\<close> is the \<^verbatim>\<open>setattr\<close> loop over the cost
  columns and \<open>new_record src\<close> is the row added for the target period.  The query for
  the target row is \<^verbatim>\<open>scalar_one_or_none()\<close>: no row, one row, or an error.  A row
  added to the session is seen by the queries that follow (the session flushes before a
  query).  The counters are \<open>(copied, skipped, updated)\<close>.
\<close>

fun copy_loop ::
  "('r \<Rightarrow> ident) \<Rightarrow> ('r \<Rightarrow> ident) \<Rightarrow> ident \<Rightarrow> ('r \<Rightarrow> 'r \<Rightarrow> 'r) \<Rightarrow> ('r \<Rightarrow> 'r) \<Rightarrow> bool
     \<Rightarrow> 'r list \<Rightarrow> 'r list \<Rightarrow> nat \<times> nat \<times> nat \<Rightarrow> error + ('r list \<times> nat \<times> nat \<times> nat)" where
  "copy_loop key period target_period_id set_columns new_record overwrite [] table counters =
     Inr (table, counters)"
| "copy_loop key period target_period_id set_columns new_record overwrite (src # rest) table
     (copied, skipped, updated) =
     (case filter (\<lambda>r. key r = key src \<and> period r = target_period_id) table of
        [] \<Rightarrow>
          copy_loop key period target_period_id set_columns new_record overwrite rest
            (table @ [new_record src]) (copied + 1, skipped, updated)
      | [target_record] \<Rightarrow>
          (if \<not> overwrite then
             copy_loop key period target_period_id set_columns new_record overwrite rest
               table (copied, skipped + 1, updated)
           else
             copy_loop key period target_period_id set_columns new_record overwrite rest
               (map (\<lambda>r. if key r = key src \<and> period r = target_period_id
                          then set_columns src r else r) table)
               (copied, skipped, updated + 1))
      | _ \<Rightarrow> Inl MultipleResultsFound)"

definition cpsc_set_columns ::
  "CrudeProductStandardCost \<Rightarrow> CrudeProductStandardCost \<Rightarrow> CrudeProductStandardCost" where
  "cpsc_set_columns src target_record =
     target_record\<lparr>cpsc_material_cost := cpsc_material_cost src,
                    cpsc_labor_cost := cpsc_labor_cost src,
                    cpsc_overhead_cost := cpsc_overhead_cost src,
                    cpsc_prior_process_cost := cpsc_prior_process_cost src,
                    cpsc_total_cost := cpsc_total_cost src,
                    cpsc_unit_cost := cpsc_unit_cost src,
                    cpsc_standard_quantity := cpsc_standard_quantity src,
                    cpsc_notes := cpsc_notes src\<rparr>"

definition cpsc_new_record :: "ident \<Rightarrow> CrudeProductStandardCost \<Rightarrow> CrudeProductStandardCost" where
  "cpsc_new_record target_period_id src =
     \<lparr>cpsc_crude_product_id = cpsc_crude_product_id src,
      cpsc_period_id = target_period_id,
      cpsc_material_cost = cpsc_material_cost src,
      cpsc_labor_cost = cpsc_labor_cost src,
      cpsc_overhead_cost = cpsc_overhead_cost src,
      cpsc_prior_process_cost = cpsc_prior_process_cost src,
      cpsc_total_cost = cpsc_total_cost src,
      cpsc_unit_cost = cpsc_unit_cost src,
      cpsc_standard_quantity = cpsc_standard_quantity src,
      cpsc_notes = cpsc_notes src\<rparr>"

definition sc_set_columns :: "StandardCost \<Rightarrow> StandardCost \<Rightarrow> StandardCost" where
  "sc_set_columns src target_record =
     target_record\<lparr>sc_crude_product_cost := sc_crude_product_cost src,
                    sc_packaging_cost := sc_packaging_cost src,
                    sc_labor_cost := sc_labor_cost src,
                    sc_overhead_cost := sc_overhead_cost src,
                    sc_outsourcing_cost := sc_outsourcing_cost src,
                    sc_total_cost := sc_total_cost src,
                    sc_unit_cost := sc_unit_cost src,
                    sc_lot_size := sc_lot_size src,
                    sc_notes := sc_notes src\<rparr>"

definition sc_new_record :: "ident \<Rightarrow> StandardCost \<Rightarrow> StandardCost" where
  "sc_new_record target_period_id src =
     \<lparr>sc_product_id = sc_product_id src,
      sc_period_id = target_period_id,
      sc_crude_product_cost = sc_crude_product_cost src,
      sc_packaging_cost = sc_packaging_cost src,
      sc_labor_cost = sc_labor_cost src,
      sc_overhead_cost = sc_overhead_cost src,
      sc_outsourcing_cost = sc_outsourcing_cost src,
      sc_total_cost = sc_total_cost src,
      sc_unit_cost = sc_unit_cost src,
      sc_lot_size = sc_lot_size src,
      sc_notes = sc_notes src\<rparr>"

record CopyCounters =
  crude_product_costs_copied :: nat
  crude_product_costs_skipped :: nat
  crude_product_costs_updated :: nat
  product_costs_copied :: nat
  product_costs_skipped :: nat
  product_costs_updated :: nat

definition copy_standard_costs ::
  "database \<Rightarrow> ident \<Rightarrow> ident \<Rightarrow> bool \<Rightarrow> error + (database \<times> CopyCounters)" where
  "copy_standard_costs db source_period_id target_period_id overwrite =
     (if source_period_id = target_period_id then Inl ValueError
      else if source_period_id \<notin> set (db_fiscal_periods db) then Inl ValueError
      else if target_period_id \<notin> set (db_fiscal_periods db) then Inl ValueError
      else
        (case copy_loop cpsc_crude_product_id cpsc_period_id target_period_id
                cpsc_set_columns (cpsc_new_record target_period_id) overwrite
                (filter (\<lambda>r. cpsc_period_id r = source_period_id)
                   (db_crude_product_standard_costs db))
                (db_crude_product_standard_costs db) (0, 0, 0) of
           Inl e \<Rightarrow> Inl e
         | Inr (crude_table, cp_copied, cp_skipped, cp_updated) \<Rightarrow>
             (case copy_loop sc_product_id sc_period_id target_period_id
                     sc_set_columns (sc_new_record target_period_id) overwrite
                     (filter (\<lambda>r. sc_period_id r = source_period_id) (db_standard_costs db))
                     (db_standard_costs db) (0, 0, 0) of
                Inl e \<Rightarrow> Inl e
              | Inr (product_table, p_copied, p_skipped, p_updated) \<Rightarrow>
                  Inr (db\<lparr>db_crude_product_standard_costs := crude_table,
                          db_standard_costs := product_table\<rparr>,
                       \<lparr>crude_product_costs_copied = cp_copied,
                        crude_product_costs_skipped = cp_skipped,
                        crude_product_costs_updated = cp_updated,
                        product_costs_copied = p_copied,
                        product_costs_skipped = p_skipped,
                        product_costs_updated = p_updated\<rparr>))))"

section \<open>Notions used to state the properties\<close>

text \<open>A result that is not the error of a division.\<close>

definition no_division_error :: "error + 'a \<Rightarrow> bool" where
  "no_division_error m = (m \<noteq> Inl DivisionByZero \<and> m \<noteq> Inl InvalidOperation)"

text \<open>
  An operation on the session, with a \<open>simulate\<close> flag, that reads nothing of the table
  of cost allocations and writes nothing else: whatever that table holds, it fails with
  the same error in both modes, or it returns the same value in both modes, leaves the
  session as it is when simulating, and appends the same rows to the table otherwise.
\<close>

definition writes_only_allocations ::
  "(database \<Rightarrow> bool \<Rightarrow> error + (database \<times> 'a)) \<Rightarrow> database \<Rightarrow> bool" where
  "writes_only_allocations f db =
     ((\<exists>e. \<forall>X s. f (db\<lparr>db_cost_allocations := X\<rparr>) s = Inl e)
      \<or> (\<exists>r allocs. \<forall>X.
            f (db\<lparr>db_cost_allocations := X\<rparr>) True = Inr (db\<lparr>db_cost_allocations := X\<rparr>, r)
          \<and> f (db\<lparr>db_cost_allocations := X\<rparr>) False
              = Inr (db\<lparr>db_cost_allocations := X @ allocs\<rparr>, r)))"


text \<open>A database with no rows, to build examples from.\<close>

definition empty_db :: database where
  "empty_db =
     \<lparr>db_materials = [], db_crude_products = [], db_products = [], db_bom_headers = [],
      db_cost_centers = [], db_cost_budgets = [], db_allocation_rules = [],
      db_fiscal_periods = [], db_crude_product_standard_costs = [], db_standard_costs = [],
      db_actual_costs = [], db_cost_allocations = [], db_variance_records = [],
      db_reconciliation_results = []\<rparr>"

section \<open>Facts about decimals and dictionaries\<close>

lemma floor_rat_numeral: "\<lfloor>numeral a / numeral b :: rat\<rfloor> = numeral a div numeral b"
  by (metis floor_divide_of_int_eq of_int_numeral)

lemma quantize4_zero: "quantize4 0 = 0"
  by (simp add: quantize4_def)


section \<open>Facts about the allocation loop\<close>



section \<open>Claims\<close>




section \<open>Rule resolution\<close>

lemma find_matching_rule_loop_eq:
  "find_matching_rule_loop rules ce w =
     (case List.find (\<lambda>r. rule_cost_element r = Some ce) rules of
        Some r \<Rightarrow> Some r
      | None \<Rightarrow> (case w of Some w' \<Rightarrow> Some w'
                 | None \<Rightarrow> List.find (\<lambda>r. rule_cost_element r = None) rules))"
  by (induction rules arbitrary: w) (auto split: option.splits)

lemma find_first_sorted:
  assumes "sorted_wrt (\<lambda>a b. rule_priority b \<le> rule_priority a) rules"
    and "List.find P rules = Some r" and "r' \<in> set rules" and "P r'"
  shows "rule_priority r' \<le> rule_priority r"
  using assms
proof (induction rules)
  case Nil
  then show ?case by simp
next
  case (Cons a rules)
  show ?case
  proof (cases "P a")
    case True
    then have "r = a" using Cons.prems(2) by simp
    then show ?thesis using Cons.prems(1,3) by auto
  next
    case False
    then have "List.find P rules = Some r" "r' \<in> set rules"
      using Cons.prems(2,3,4) by auto
    then show ?thesis using Cons.IH Cons.prems(1,4) by simp
  qed
qed

text \<open>
  C4.  On a rule list sorted by priority descending, \<^verbatim>\<open>_find_matching_rule\<close> returns a
  rule of the list whose \<^verbatim>\<open>cost_element\<close> equals the target element whenever one exists
  (the one of highest priority among them, whatever the priority of any wildcard rule);
  when none exists it returns a wildcard rule of highest priority among the wildcard
  rules; and it returns none when the list has neither.
\<close>

theorem find_matching_rule_two_tier:
  assumes "sorted_wrt (\<lambda>a b. rule_priority b \<le> rule_priority a) rules"
  shows "((\<exists>r \<in> set rules. rule_cost_element r = Some ce) \<longrightarrow>
            (\<exists>r. find_matching_rule rules ce = Some r \<and> r \<in> set rules
               \<and> rule_cost_element r = Some ce
               \<and> (\<forall>r' \<in> set rules. rule_cost_element r' = Some ce
                      \<longrightarrow> rule_priority r' \<le> rule_priority r)))
       \<and> ((\<forall>r \<in> set rules. rule_cost_element r \<noteq> Some ce)
            \<and> (\<exists>w \<in> set rules. rule_cost_element w = None) \<longrightarrow>
            (\<exists>w. find_matching_rule rules ce = Some w \<and> w \<in> set rules
               \<and> rule_cost_element w = None
               \<and> (\<forall>w' \<in> set rules. rule_cost_element w' = None
                      \<longrightarrow> rule_priority w' \<le> rule_priority w)))
       \<and> ((\<forall>r \<in> set rules. rule_cost_element r \<noteq> Some ce
                 \<and> rule_cost_element r \<noteq> None) \<longrightarrow>
            find_matching_rule rules ce = None)"
proof (intro conjI impI)
  let ?E = "\<lambda>r. rule_cost_element r = Some ce"
  let ?W = "\<lambda>r. rule_cost_element r = None"
  {
    assume "\<exists>r \<in> set rules. ?E r"
    then obtain r where f: "List.find ?E rules = Some r"
      by (cases "List.find ?E rules") (auto simp: find_None_iff)
    then have mem: "r \<in> set rules" and e: "?E r"
      by (auto simp: find_Some_iff)
    have res: "find_matching_rule rules ce = Some r"
      using f by (simp add: find_matching_rule_def find_matching_rule_loop_eq)
    have "\<forall>r' \<in> set rules. ?E r' \<longrightarrow> rule_priority r' \<le> rule_priority r"
      using find_first_sorted [OF assms f] by blast
    then show "\<exists>r. find_matching_rule rules ce = Some r \<and> r \<in> set rules \<and> ?E r
        \<and> (\<forall>r' \<in> set rules. ?E r' \<longrightarrow> rule_priority r' \<le> rule_priority r)"
      using res mem e by blast
  }
  {
    assume a: "(\<forall>r \<in> set rules. rule_cost_element r \<noteq> Some ce) \<and> (\<exists>w \<in> set rules. ?W w)"
    then have none: "List.find ?E rules = None" by (simp add: find_None_iff)
    from a obtain w where f: "List.find ?W rules = Some w"
      by (cases "List.find ?W rules") (auto simp: find_None_iff)
    then have mem: "w \<in> set rules" and e: "?W w"
      by (auto simp: find_Some_iff)
    have res: "find_matching_rule rules ce = Some w"
      using f none by (simp add: find_matching_rule_def find_matching_rule_loop_eq)
    have "\<forall>w' \<in> set rules. ?W w' \<longrightarrow> rule_priority w' \<le> rule_priority w"
      using find_first_sorted [OF assms f] by blast
    then show "\<exists>w. find_matching_rule rules ce = Some w \<and> w \<in> set rules \<and> ?W w
        \<and> (\<forall>w' \<in> set rules. ?W w' \<longrightarrow> rule_priority w' \<le> rule_priority w)"
      using res mem e by blast
  }
  {
    assume "\<forall>r \<in> set rules. rule_cost_element r \<noteq> Some ce \<and> rule_cost_element r \<noteq> None"
    then have "List.find ?E rules = None" "List.find ?W rules = None"
      by (simp_all add: find_None_iff)
    then show "find_matching_rule rules ce = None"
      by (simp add: find_matching_rule_def find_matching_rule_loop_eq)
  }
qed

theorem find_matching_rule_two_tier_witness:
  "sorted_wrt (\<lambda>a b. rule_priority b \<le> rule_priority a)
     [\<lparr>rule_ident = ''r2'', rule_source_cost_center_id = ''cc'', rule_cost_element = None,
          rule_basis = weight_based, rule_priority = 10, rule_is_active = True,
          rule_targets = []\<rparr>,
      \<lparr>rule_ident = ''r1'', rule_source_cost_center_id = ''cc'',
          rule_cost_element = Some ''labor'', rule_basis = production_hours,
          rule_priority = 5, rule_is_active = True, rule_targets = []\<rparr>]
   \<and> (\<exists>r. find_matching_rule
          [\<lparr>rule_ident = ''r2'', rule_source_cost_center_id = ''cc'', rule_cost_element = None,
          rule_basis = weight_based, rule_priority = 10, rule_is_active = True,
          rule_targets = []\<rparr>,
           \<lparr>rule_ident = ''r1'', rule_source_cost_center_id = ''cc'',
          rule_cost_element = Some ''labor'', rule_basis = production_hours,
          rule_priority = 5, rule_is_active = True, rule_targets = []\<rparr>] ''labor'' = Some r
        \<and> rule_cost_element r = Some ''labor'' \<and> rule_priority r = 5)"
proof -
  let ?W = "\<lparr>rule_ident = ''r2'', rule_source_cost_center_id = ''cc'', rule_cost_element = None,
          rule_basis = weight_based, rule_priority = 10, rule_is_active = True,
          rule_targets = []\<rparr>"
  let ?L = "\<lparr>rule_ident = ''r1'', rule_source_cost_center_id = ''cc'',
          rule_cost_element = Some ''labor'', rule_basis = production_hours,
          rule_priority = 5, rule_is_active = True, rule_targets = []\<rparr>"
  have s: "sorted_wrt (\<lambda>a b. rule_priority b \<le> rule_priority a) [?W, ?L]" by simp
  have ex: "\<exists>r \<in> set [?W, ?L]. rule_cost_element r = Some ''labor''" by simp
  obtain r where r: "find_matching_rule [?W, ?L] ''labor'' = Some r" "r \<in> set [?W, ?L]"
      "rule_cost_element r = Some ''labor''"
    using find_matching_rule_two_tier [OF s, of "''labor''"] ex by blast
  have "rule_priority r = 5" using r(2,3) by auto
  then show ?thesis using s r by blast
qed

section \<open>Variance analysis: the records written\<close>

lemma calc_percent_eq:
  "calc_percent v s = Inr (if s = 0 then 0 else quantize4 (v / s * 100))"
  by (simp add: calc_percent_def dec_div_def ZERO_def HUNDRED_def)

lemma mapE_total:
  "(\<And>x. x \<in> set xs \<Longrightarrow> f x = Inr (g x)) \<Longrightarrow> mapE f xs = Inr (map g xs)"
  by (induction xs) auto

lemma mapE_Inr_mem:
  "mapE f xs = Inr ys \<Longrightarrow> y \<in> set ys \<Longrightarrow> \<exists>x \<in> set xs. f x = Inr y"
  by (induction xs arbitrary: ys) (auto split: sum.splits)

lemma variance_record_eq:
  "variance_record period_id th pid f std_val ac =
     Inr \<lparr>vr_product_id = pid, vr_cost_center_id = ac_cost_center_id ac,
          vr_period_id = period_id, vr_variance_type = price,
          vr_cost_element = f, vr_standard_amount = std_val,
          vr_actual_amount = ac_getattr ac f,
          vr_variance_amount = ac_getattr ac f - std_val,
          vr_variance_percent =
            (if std_val = 0 then 0 else quantize4 ((ac_getattr ac f - std_val) / std_val * 100)),
          vr_is_favorable = (ac_getattr ac f - std_val \<le> 0),
          vr_is_flagged =
            (\<bar>if std_val = 0 then 0 else quantize4 ((ac_getattr ac f - std_val) / std_val * 100)\<bar> > th),
          vr_flag_reason =
            (if \<bar>if std_val = 0 then 0 else quantize4 ((ac_getattr ac f - std_val) / std_val * 100)\<bar> > th
             then Some (f, ac_getattr ac f - std_val \<le> 0, th,
                        if std_val = 0 then 0 else quantize4 ((ac_getattr ac f - std_val) / std_val * 100))
             else None)\<rparr>"
  by (simp add: variance_record_def calc_percent_eq Let_def ZERO_def)

lemma standard_costs_fold:
  "map_of (fold (\<lambda>sc d. AList.update (sc_product_id sc) sc d) rows d0) pid = Some sc \<Longrightarrow>
   (sc \<in> set rows \<and> sc_product_id sc = pid) \<or> map_of d0 pid = Some sc"
  by (induction rows arbitrary: d0) (fastforce simp: update_conv' split: if_splits)+

lemma standard_costs_by_product_Some:
  "map_of (standard_costs_by_product rows) pid = Some sc \<Longrightarrow>
   sc \<in> set rows \<and> sc_product_id sc = pid"
  using standard_costs_fold [of rows "[]" pid sc] by (simp add: standard_costs_by_product_def)

lemma group_actual_fold:
  "map_of (fold (\<lambda>ac d. AList.update (ac_product_id ac)
                      (case map_of d (ac_product_id ac) of None \<Rightarrow> [ac] | Some l \<Rightarrow> l @ [ac]) d)
       rows d0) pid = Some actuals \<Longrightarrow> ac \<in> set actuals \<Longrightarrow>
   (ac \<in> set rows \<and> ac_product_id ac = pid) \<or> (\<exists>l. map_of d0 pid = Some l \<and> ac \<in> set l)"
proof (induction rows arbitrary: d0)
  case Nil
  then show ?case by simp
next
  case (Cons a rows)
  from Cons.IH [OF Cons.prems(1) [simplified] Cons.prems(2)]
  show ?case
    by (auto simp: update_conv' split: if_splits option.splits)
qed

lemma group_actual_by_product_Some:
  "map_of (group_actual_by_product rows) pid = Some actuals \<Longrightarrow> ac \<in> set actuals \<Longrightarrow>
   ac \<in> set rows \<and> ac_product_id ac = pid"
  using group_actual_fold [of rows "[]" pid actuals ac] by (simp add: group_actual_by_product_def)

lemma variance_record_Inr:
  "variance_record p th pid f s ac = Inr (projr (variance_record p th pid f s ac))"
  by (simp add: variance_record_eq)

lemma product_variance_records_eq:
  "product_variance_records p th pid sc actuals =
     Inr (concat (map (\<lambda>f. map (\<lambda>ac. projr (variance_record p th pid f (sc_getattr sc f) ac))
                              actuals) COST_ELEMENTS))"
proof -
  have inner: "\<And>f. mapE (variance_record p th pid f (sc_getattr sc f)) actuals =
      Inr (map (\<lambda>ac. projr (variance_record p th pid f (sc_getattr sc f) ac)) actuals)"
    by (rule mapE_total) (rule variance_record_Inr)
  have "mapE (\<lambda>f. mapE (variance_record p th pid f (sc_getattr sc f)) actuals) COST_ELEMENTS =
      Inr (map (\<lambda>f. map (\<lambda>ac. projr (variance_record p th pid f (sc_getattr sc f) ac)) actuals)
             COST_ELEMENTS)"
    by (rule mapE_total) (rule inner)
  then show ?thesis by (simp add: product_variance_records_def)
qed

lemma new_variance_records_mem:
  "\<exists>records. new_variance_records p th std_rows act_rows = Inr records
     \<and> (\<forall>r \<in> set records. \<exists>sc ac f. sc \<in> set std_rows \<and> ac \<in> set act_rows
            \<and> f \<in> set COST_ELEMENTS \<and> ac_product_id ac = sc_product_id sc
            \<and> variance_record p th (sc_product_id sc) f (sc_getattr sc f) ac = Inr r)"
proof -
  let ?scs = "standard_costs_by_product std_rows"
  let ?abp = "group_actual_by_product act_rows"
  let ?ids = "filter (\<lambda>pid. map_of ?abp pid \<noteq> None) (map fst ?scs)"
  let ?body = "\<lambda>pid. case (map_of ?scs pid, map_of ?abp pid) of
                        (Some sc, Some actuals) \<Rightarrow> product_variance_records p th pid sc actuals
                      | _ \<Rightarrow> Inl KeyError"
  let ?g = "\<lambda>pid. projr (?body pid)"
  have body: "?body pid = Inr (?g pid)" if "pid \<in> set (sort ?ids)" for pid
  proof -
    from that have a: "pid \<in> fst ` set ?scs" and b: "map_of ?abp pid \<noteq> None" by auto
    from a obtain sc where "map_of ?scs pid = Some sc"
      by (metis domD dom_map_of_conv_image_fst)
    moreover from b obtain actuals where "map_of ?abp pid = Some actuals" by auto
    ultimately show ?thesis by (simp add: product_variance_records_eq)
  qed
  have eq: "new_variance_records p th std_rows act_rows = Inr (concat (map ?g (sort ?ids)))"
    using mapE_total [of "sort ?ids" ?body ?g, OF body]
    by (simp add: new_variance_records_def Let_def)
  have "\<exists>sc ac f. sc \<in> set std_rows \<and> ac \<in> set act_rows
            \<and> f \<in> set COST_ELEMENTS \<and> ac_product_id ac = sc_product_id sc
            \<and> variance_record p th (sc_product_id sc) f (sc_getattr sc f) ac = Inr r"
    if "r \<in> set (concat (map ?g (sort ?ids)))" for r
  proof -
    from that obtain pid where pid: "pid \<in> set (sort ?ids)" and r: "r \<in> set (?g pid)" by auto
    from pid have a: "pid \<in> fst ` set ?scs" and b: "map_of ?abp pid \<noteq> None" by auto
    from a obtain sc where sc: "map_of ?scs pid = Some sc"
      by (metis domD dom_map_of_conv_image_fst)
    from b obtain actuals where ac: "map_of ?abp pid = Some actuals" by auto
    have "?g pid = concat (map (\<lambda>f. map (\<lambda>ac. projr (variance_record p th pid f (sc_getattr sc f) ac))
                              actuals) COST_ELEMENTS)"
      using sc ac by (simp add: product_variance_records_eq)
    with r obtain f a where f: "f \<in> set COST_ELEMENTS" and a: "a \<in> set actuals"
      and req: "r = projr (variance_record p th pid f (sc_getattr sc f) a)" by auto
    have s1: "sc \<in> set std_rows" "sc_product_id sc = pid"
      using standard_costs_by_product_Some [OF sc] by auto
    have s2: "a \<in> set act_rows" "ac_product_id a = pid"
      using group_actual_by_product_Some [OF ac a] by auto
    have "variance_record p th (sc_product_id sc) f (sc_getattr sc f) a = Inr r"
      using req s1(2) variance_record_Inr [of p th pid f "sc_getattr sc f" a] by simp
    then show ?thesis using s1 s2 f by auto
  qed
  then show ?thesis using eq by blast
qed

subsection \<open>Values with four decimal places\<close>

lemma quantize4_of_int: "quantize4 (of_int k / 10000) = of_int k / 10000"
proof -
  have a: "\<bar>of_int k / 10000 :: rat\<bar> * 10000 + 1 / 2 = of_int \<bar>k\<bar> + 1 / 2"
    by (simp add: abs_divide)
  have f: "\<lfloor>of_int \<bar>k\<bar> + 1 / 2 :: rat\<rfloor> = \<bar>k\<bar>"
    by (rule floor_unique) simp_all
  have s: "sgn (of_int k / 10000 :: rat) = of_int (sgn k)"
    by (simp add: sgn_divide sgn_if)
  have "quantize4 (of_int k / 10000) = of_int (sgn k) * of_int \<bar>k\<bar> / 10000"
    unfolding quantize4_def a f s ..
  also have "\<dots> = of_int (sgn k * \<bar>k\<bar>) / 10000" by simp
  also have "sgn k * \<bar>k\<bar> = k" by (simp add: sgn_mult_abs)
  finally show ?thesis .
qed

lemma quantize4_int: "\<exists>k. quantize4 x = of_int k / 10000"
proof -
  have "sgn x = of_int (sgn \<lfloor>x\<rfloor>) \<or> sgn x = 1"
    by (cases "x < 0"; cases "x = 0"; simp add: sgn_if) linarith
  moreover have "sgn x = 1 \<Longrightarrow> sgn x = of_int 1" by simp
  ultimately obtain s :: int where "sgn x = of_int s" by blast
  then have "quantize4 x = of_int (s * \<lfloor>\<bar>x\<bar> * 10000 + 1 / 2\<rfloor>) / 10000"
    by (simp add: quantize4_def)
  then show ?thesis by blast
qed

lemma is_dec4_iff: "is_dec4 x \<longleftrightarrow> (\<exists>k. x = of_int k / 10000)"
  unfolding is_dec4_def using quantize4_of_int quantize4_int by metis

lemma is_dec4_quantize4: "is_dec4 (quantize4 x)"
  using quantize4_int [of x] by (auto simp: is_dec4_iff)

lemma is_dec4_diff: "is_dec4 a \<Longrightarrow> is_dec4 b \<Longrightarrow> is_dec4 (a - b)"
proof -
  assume "is_dec4 a" "is_dec4 b"
  then obtain k l where "a = of_int k / 10000" "b = of_int l / 10000"
    by (auto simp: is_dec4_iff)
  then have "a - b = of_int (k - l) / 10000" by (simp add: diff_divide_distrib)
  then show ?thesis unfolding is_dec4_iff by blast
qed

lemma is_dec4_add: "is_dec4 a \<Longrightarrow> is_dec4 b \<Longrightarrow> is_dec4 (a + b)"
proof -
  assume "is_dec4 a" "is_dec4 b"
  then obtain k l where "a = of_int k / 10000" "b = of_int l / 10000"
    by (auto simp: is_dec4_iff)
  then have "a + b = of_int (k + l) / 10000" by (simp add: add_divide_distrib)
  then show ?thesis unfolding is_dec4_iff by blast
qed

lemma is_dec4_zero: "is_dec4 0"
  by (simp add: is_dec4_def quantize4_def)

lemma store_numeric_dec4: "is_dec4 x \<Longrightarrow> store_numeric p x = Inr y \<Longrightarrow> y = x"
  by (auto simp: store_numeric_def is_dec4_def Let_def split: if_splits)

subsection \<open>Every pair of rows yields its records\<close>

lemma new_variance_records_eq:
  "new_variance_records p th std_rows act_rows =
     Inr (concat (map (\<lambda>pid. projr
                (case (map_of (standard_costs_by_product std_rows) pid,
                       map_of (group_actual_by_product act_rows) pid) of
                   (Some sc, Some actuals) \<Rightarrow> product_variance_records p th pid sc actuals
                 | _ \<Rightarrow> Inl KeyError))
            (sort (filter (\<lambda>pid. map_of (group_actual_by_product act_rows) pid \<noteq> None)
                     (map fst (standard_costs_by_product std_rows))))))"
proof -
  let ?scs = "standard_costs_by_product std_rows"
  let ?abp = "group_actual_by_product act_rows"
  let ?ids = "filter (\<lambda>pid. map_of ?abp pid \<noteq> None) (map fst ?scs)"
  let ?body = "\<lambda>pid. case (map_of ?scs pid, map_of ?abp pid) of
                        (Some sc, Some actuals) \<Rightarrow> product_variance_records p th pid sc actuals
                      | _ \<Rightarrow> Inl KeyError"
  let ?g = "\<lambda>pid. projr (?body pid)"
  have body: "?body pid = Inr (?g pid)" if "pid \<in> set (sort ?ids)" for pid
  proof -
    from that have a: "pid \<in> fst ` set ?scs" and b: "map_of ?abp pid \<noteq> None" by auto
    from a obtain sc where "map_of ?scs pid = Some sc"
      by (metis domD dom_map_of_conv_image_fst)
    moreover from b obtain actuals where "map_of ?abp pid = Some actuals" by auto
    ultimately show ?thesis by (simp add: product_variance_records_eq)
  qed
  show ?thesis
    using mapE_total [of "sort ?ids" ?body ?g, OF body]
    by (simp add: new_variance_records_def Let_def)
qed

lemma new_variance_records_complete:
  assumes "new_variance_records p th std_rows act_rows = Inr records"
    and "map_of (standard_costs_by_product std_rows) pid = Some sc"
    and "map_of (group_actual_by_product act_rows) pid = Some actuals"
    and "ac \<in> set actuals" and "f \<in> set COST_ELEMENTS"
  shows "projr (variance_record p th pid f (sc_getattr sc f) ac) \<in> set records"
proof -
  define g where "g = (\<lambda>pid. projr
                (case (map_of (standard_costs_by_product std_rows) pid,
                       map_of (group_actual_by_product act_rows) pid) of
                   (Some sc, Some actuals) \<Rightarrow> product_variance_records p th pid sc actuals
                 | _ \<Rightarrow> Inl KeyError))"
  define ids where "ids = sort (filter (\<lambda>pid. map_of (group_actual_by_product act_rows) pid \<noteq> None)
                     (map fst (standard_costs_by_product std_rows)))"
  have recs: "records = concat (map g ids)"
    using assms(1) unfolding new_variance_records_eq g_def ids_def by simp
  have pid: "pid \<in> set ids"
  proof -
    from assms(2) have "(pid, sc) \<in> set (standard_costs_by_product std_rows)"
      by (rule map_of_SomeD)
    then have "pid \<in> fst ` set (standard_costs_by_product std_rows)" by force
    then show ?thesis using assms(3) by (simp add: ids_def)
  qed
  have gp: "g pid = projr (product_variance_records p th pid sc actuals)"
    using assms(2,3) by (simp add: g_def)
  have "projr (variance_record p th pid f (sc_getattr sc f) ac) \<in> set (g pid)"
    unfolding gp using assms(4,5) by (simp add: product_variance_records_eq) blast
  then show ?thesis unfolding recs using pid by auto
qed

lemma group_actual_fold_complete:
  "(\<forall>ac \<in> set rows. \<exists>l. map_of (fold (\<lambda>ac d. AList.update (ac_product_id ac)
                      (case map_of d (ac_product_id ac) of None \<Rightarrow> [ac] | Some l \<Rightarrow> l @ [ac]) d)
       rows d0) (ac_product_id ac) = Some l \<and> ac \<in> set l)
   \<and> (\<forall>pid l0. map_of d0 pid = Some l0 \<longrightarrow>
        (\<exists>l. map_of (fold (\<lambda>ac d. AList.update (ac_product_id ac)
                      (case map_of d (ac_product_id ac) of None \<Rightarrow> [ac] | Some l \<Rightarrow> l @ [ac]) d)
       rows d0) pid = Some l \<and> set l0 \<subseteq> set l))"
proof (induction rows arbitrary: d0)
  case Nil
  then show ?case by simp
next
  case (Cons a rows)
  let ?d1 = "AList.update (ac_product_id a)
      (case map_of d0 (ac_product_id a) of None \<Rightarrow> [a] | Some l \<Rightarrow> l @ [a]) d0"
  note ih = Cons.IH [of ?d1]
  have a1: "\<exists>l1. map_of ?d1 (ac_product_id a) = Some l1 \<and> a \<in> set l1"
    by (auto simp: update_conv' split: option.splits)
  have keep: "\<exists>l1. map_of ?d1 pid = Some l1 \<and> set l0 \<subseteq> set l1" if "map_of d0 pid = Some l0"
    for pid l0
    using that by (auto simp: update_conv' split: option.splits)
  show ?case
  proof (intro conjI ballI allI impI)
    fix ac assume "ac \<in> set (a # rows)"
    then consider "ac = a" | "ac \<in> set rows" by auto
    then show "\<exists>l. map_of (fold (\<lambda>ac d. AList.update (ac_product_id ac)
                      (case map_of d (ac_product_id ac) of None \<Rightarrow> [ac] | Some l \<Rightarrow> l @ [ac]) d)
       (a # rows) d0) (ac_product_id ac) = Some l \<and> ac \<in> set l"
    proof cases
      case 1
      from a1 obtain l1 where "map_of ?d1 (ac_product_id a) = Some l1" "a \<in> set l1" by blast
      then show ?thesis using ih 1 by simp blast
    next
      case 2
      then show ?thesis using ih by simp
    qed
  next
    fix pid l0 assume "map_of d0 pid = Some l0"
    then obtain l1 where l1: "map_of ?d1 pid = Some l1" "set l0 \<subseteq> set l1" using keep by blast
    then show "\<exists>l. map_of (fold (\<lambda>ac d. AList.update (ac_product_id ac)
                      (case map_of d (ac_product_id ac) of None \<Rightarrow> [ac] | Some l \<Rightarrow> l @ [ac]) d)
       (a # rows) d0) pid = Some l \<and> set l0 \<subseteq> set l"
      using ih by simp blast
  qed
qed

lemma group_actual_by_product_complete:
  "ac \<in> set rows \<Longrightarrow>
   \<exists>l. map_of (group_actual_by_product rows) (ac_product_id ac) = Some l \<and> ac \<in> set l"
  using group_actual_fold_complete [of rows "[]"] by (simp add: group_actual_by_product_def)

lemma mapE_same:
  "mapE f xs = Inr ys \<Longrightarrow> (\<And>x y. x \<in> set xs \<Longrightarrow> f x = Inr y \<Longrightarrow> y = x) \<Longrightarrow> ys = xs"
  by (induction xs arbitrary: ys) (auto split: sum.splits)

lemma flush_variance_record_same:
  assumes "flush_variance_record r = Inr r'"
    and "is_dec4 (vr_standard_amount r)" and "is_dec4 (vr_actual_amount r)"
    and "is_dec4 (vr_variance_amount r)" and "is_dec4 (vr_variance_percent r)"
  shows "r' = r \<and> \<bar>vr_variance_percent r\<bar> < 10000 \<and> \<bar>vr_variance_amount r\<bar> < 10 ^ 14"
  using assms
  by (auto simp: flush_variance_record_def bindE_def store_numeric_def is_dec4_def Let_def
        split: sum.splits if_splits)

lemma is_numeric_dec4: "is_numeric p x \<Longrightarrow> is_dec4 x"
  by (auto simp: is_numeric_def store_numeric_def is_dec4_def Let_def split: if_splits)

lemma mapE_Inr_all:
  "mapE f xs = Inr ys \<Longrightarrow> x \<in> set xs \<Longrightarrow> \<exists>y. f x = Inr y"
  by (induction xs arbitrary: ys) (auto split: sum.splits)

lemma analyze_variances_Inr:
  assumes "analyze_variances db period_id product_ids th = Inr (db', summary)"
  shows "\<exists>records stored.
      new_variance_records period_id th
        (filter (\<lambda>sc. sc_period_id sc = period_id
                   \<and> (product_ids = [] \<or> sc_product_id sc \<in> set product_ids))
           (db_standard_costs db))
        (filter (\<lambda>ac. ac_period_id ac = period_id
                   \<and> (product_ids = [] \<or> ac_product_id ac \<in> set product_ids))
           (db_actual_costs db)) = Inr records
    \<and> mapE flush_variance_record records = Inr stored
    \<and> db_variance_records db' =
         filter (\<lambda>r. \<not> (vr_period_id r = period_id
                   \<and> (product_ids = [] \<or> vr_product_id r \<in> set product_ids)))
           (db_variance_records db) @ stored
    \<and> as_records_created summary = length records"
  using assms
  by (auto simp: analyze_variances_def Let_def bindE_def split: sum.splits)


lemma floor_half_rat: "\<lfloor>1 / 2 :: rat\<rfloor> = 0"
  by (rule floor_unique) simp_all

lemmas analyze_variances_eval =
  analyze_variances_def new_variance_records_def standard_costs_by_product_def
  group_actual_by_product_def product_variance_records_def COST_ELEMENTS_def variance_record_def
  calc_percent_def dec_div_def ZERO_def HUNDRED_def sc_getattr_def ac_getattr_def
  aggregate_actual_costs_def flush_variance_record_def store_numeric_def bindE_def
  quantize4_def floor_rat_numeral floor_half_rat Let_def


text \<open>
  C5.  Every variance record produced by a call of \<^verbatim>\<open>analyze_variances\<close> that returns,
  on cost figures read from their \<^verbatim>\<open>Numeric(18, 4)\<close> columns: the call replaces the
  period's variance records (of the selected products) by the new ones, stored as
  computed; variance is actual minus standard; percent is variance divided by standard
  times 100, rounded half-up to 4 places, and zero when standard is zero; the record is
  favorable iff variance is at most zero; it is flagged iff the absolute percent is
  strictly greater than the threshold; the percent is below 10000 in absolute value (the
  flush refuses any other); the record compares the product-level standard figure of one
  cost element with the figure of one actual-cost row of that product.  Conversely every
  selected actual-cost row of a product with a standard cost yields one such record for
  each of the five cost elements.
\<close>

theorem analyze_variances_records:
  assumes "analyze_variances db period_id product_ids th = Inr (db', summary)"
    and "\<forall>sc \<in> set (db_standard_costs db). \<forall>f \<in> set COST_ELEMENTS.
           is_numeric 18 (sc_getattr sc f)"
    and "\<forall>ac \<in> set (db_actual_costs db). \<forall>f \<in> set COST_ELEMENTS.
           is_numeric 18 (ac_getattr ac f)"
  shows "\<exists>records.
     db_variance_records db' =
         filter (\<lambda>r. \<not> (vr_period_id r = period_id
                   \<and> (product_ids = [] \<or> vr_product_id r \<in> set product_ids)))
           (db_variance_records db) @ records
     \<and> as_records_created summary = length records
     \<and> (\<forall>r \<in> set records.
           vr_variance_amount r = vr_actual_amount r - vr_standard_amount r
         \<and> vr_variance_percent r =
             (if vr_standard_amount r = 0 then 0
              else quantize4 (vr_variance_amount r / vr_standard_amount r * 100))
         \<and> vr_is_favorable r = (vr_variance_amount r \<le> 0)
         \<and> vr_is_flagged r = (\<bar>vr_variance_percent r\<bar> > th)
         \<and> \<bar>vr_variance_percent r\<bar> < 10000
         \<and> (\<exists>sc \<in> set (db_standard_costs db). \<exists>ac \<in> set (db_actual_costs db).
               sc_period_id sc = period_id \<and> ac_period_id ac = period_id
             \<and> sc_product_id sc = vr_product_id r \<and> ac_product_id ac = vr_product_id r
             \<and> vr_cost_center_id r = ac_cost_center_id ac
             \<and> vr_cost_element r \<in> set COST_ELEMENTS
             \<and> vr_standard_amount r = sc_getattr sc (vr_cost_element r)
             \<and> vr_actual_amount r = ac_getattr ac (vr_cost_element r)))
     \<and> (\<forall>ac \<in> set (db_actual_costs db). \<forall>sc. \<forall>f \<in> set COST_ELEMENTS.
           ac_period_id ac = period_id
         \<and> (product_ids = [] \<or> ac_product_id ac \<in> set product_ids)
         \<and> map_of (standard_costs_by_product
               (filter (\<lambda>sc. sc_period_id sc = period_id
                          \<and> (product_ids = [] \<or> sc_product_id sc \<in> set product_ids))
                  (db_standard_costs db))) (ac_product_id ac) = Some sc
         \<longrightarrow> (\<exists>r \<in> set records.
               vr_product_id r = ac_product_id ac
             \<and> vr_cost_center_id r = ac_cost_center_id ac
             \<and> vr_cost_element r = f
             \<and> vr_standard_amount r = sc_getattr sc f
             \<and> vr_actual_amount r = ac_getattr ac f))"
proof -
  let ?sel = "\<lambda>pid. product_ids = [] \<or> pid \<in> set product_ids"
  let ?std = "filter (\<lambda>sc. sc_period_id sc = period_id \<and> ?sel (sc_product_id sc))
                 (db_standard_costs db)"
  let ?act = "filter (\<lambda>ac. ac_period_id ac = period_id \<and> ?sel (ac_product_id ac))
                 (db_actual_costs db)"
  from analyze_variances_Inr [OF assms(1)] obtain records stored where
    rec: "new_variance_records period_id th ?std ?act = Inr records"
    and fl: "mapE flush_variance_record records = Inr stored"
    and tab: "db_variance_records db' =
         filter (\<lambda>r. \<not> (vr_period_id r = period_id \<and> ?sel (vr_product_id r)))
           (db_variance_records db) @ stored"
    and cnt: "as_records_created summary = length records"
    by blast
  have mem: "\<forall>r \<in> set records. \<exists>sc ac f. sc \<in> set ?std \<and> ac \<in> set ?act
            \<and> f \<in> set COST_ELEMENTS \<and> ac_product_id ac = sc_product_id sc
            \<and> variance_record period_id th (sc_product_id sc) f (sc_getattr sc f) ac = Inr r"
    using new_variance_records_mem [of period_id th ?std ?act] rec by simp
  have props: "vr_variance_amount r = vr_actual_amount r - vr_standard_amount r
         \<and> vr_variance_percent r =
             (if vr_standard_amount r = 0 then 0
              else quantize4 (vr_variance_amount r / vr_standard_amount r * 100))
         \<and> vr_is_favorable r = (vr_variance_amount r \<le> 0)
         \<and> vr_is_flagged r = (\<bar>vr_variance_percent r\<bar> > th)
         \<and> is_dec4 (vr_standard_amount r) \<and> is_dec4 (vr_actual_amount r)
         \<and> is_dec4 (vr_variance_amount r) \<and> is_dec4 (vr_variance_percent r)
         \<and> (\<exists>sc \<in> set (db_standard_costs db). \<exists>ac \<in> set (db_actual_costs db).
               sc_period_id sc = period_id \<and> ac_period_id ac = period_id
             \<and> sc_product_id sc = vr_product_id r \<and> ac_product_id ac = vr_product_id r
             \<and> vr_cost_center_id r = ac_cost_center_id ac
             \<and> vr_cost_element r \<in> set COST_ELEMENTS
             \<and> vr_standard_amount r = sc_getattr sc (vr_cost_element r)
             \<and> vr_actual_amount r = ac_getattr ac (vr_cost_element r))"
    if "r \<in> set records" for r
  proof -
    from mem that obtain sc ac f where sc: "sc \<in> set ?std" and ac: "ac \<in> set ?act"
      and f: "f \<in> set COST_ELEMENTS" and same: "ac_product_id ac = sc_product_id sc"
      and r: "variance_record period_id th (sc_product_id sc) f (sc_getattr sc f) ac = Inr r"
      by blast
    have req: "r = projr (variance_record period_id th (sc_product_id sc) f (sc_getattr sc f) ac)"
      using r by simp
    have fields: "vr_variance_amount r = vr_actual_amount r - vr_standard_amount r"
      "vr_variance_percent r =
             (if vr_standard_amount r = 0 then 0
              else quantize4 (vr_variance_amount r / vr_standard_amount r * 100))"
      "vr_is_favorable r = (vr_variance_amount r \<le> 0)"
      "vr_is_flagged r = (\<bar>vr_variance_percent r\<bar> > th)"
      "vr_product_id r = sc_product_id sc" "vr_cost_center_id r = ac_cost_center_id ac"
      "vr_cost_element r = f" "vr_standard_amount r = sc_getattr sc f"
      "vr_actual_amount r = ac_getattr ac f"
      unfolding req by (simp_all add: variance_record_eq)
    have inn: "sc \<in> set (db_standard_costs db)" "ac \<in> set (db_actual_costs db)"
      "sc_period_id sc = period_id" "ac_period_id ac = period_id"
      using sc ac by auto
    have d1: "is_dec4 (vr_standard_amount r)"
      unfolding fields(8) using assms(2) inn(1) f by (blast intro: is_numeric_dec4)
    have d2: "is_dec4 (vr_actual_amount r)"
      unfolding fields(9) using assms(3) inn(2) f by (blast intro: is_numeric_dec4)
    have d3: "is_dec4 (vr_variance_amount r)"
      unfolding fields(1) by (rule is_dec4_diff [OF d2 d1])
    have d4: "is_dec4 (vr_variance_percent r)"
      unfolding fields(2) by (simp add: is_dec4_zero is_dec4_quantize4)
    show ?thesis using fields f same inn d1 d2 d3 d4 by auto
  qed
  have same: "y = x \<and> \<bar>vr_variance_percent x\<bar> < 10000"
    if "x \<in> set records" "flush_variance_record x = Inr y" for x y
  proof -
    from props [OF that(1)] have "is_dec4 (vr_standard_amount x)" "is_dec4 (vr_actual_amount x)"
      "is_dec4 (vr_variance_amount x)" "is_dec4 (vr_variance_percent x)" by blast+
    from flush_variance_record_same [OF that(2) this] show ?thesis by blast
  qed
  have st: "stored = records"
    using fl by (rule mapE_same) (use same in blast)
  have bound: "\<bar>vr_variance_percent r\<bar> < 10000" if "r \<in> set records" for r
  proof -
    from mapE_Inr_all [OF fl that] obtain y where "flush_variance_record r = Inr y" ..
    then show ?thesis using same that by blast
  qed
  have complete: "\<exists>r \<in> set records.
               vr_product_id r = ac_product_id ac
             \<and> vr_cost_center_id r = ac_cost_center_id ac
             \<and> vr_cost_element r = f
             \<and> vr_standard_amount r = sc_getattr sc f
             \<and> vr_actual_amount r = ac_getattr ac f"
    if ac: "ac \<in> set (db_actual_costs db)" and f: "f \<in> set COST_ELEMENTS"
      and p: "ac_period_id ac = period_id" and sel: "?sel (ac_product_id ac)"
      and sc: "map_of (standard_costs_by_product ?std) (ac_product_id ac) = Some sc"
    for ac sc f
  proof -
    have "ac \<in> set ?act" using ac p sel by simp
    from group_actual_by_product_complete [OF this] obtain l where
      l: "map_of (group_actual_by_product ?act) (ac_product_id ac) = Some l" "ac \<in> set l"
      by blast
    let ?r = "projr (variance_record period_id th (ac_product_id ac) f (sc_getattr sc f) ac)"
    have "?r \<in> set records"
      by (rule new_variance_records_complete [OF rec sc l f])
    moreover have "vr_product_id ?r = ac_product_id ac"
      "vr_cost_center_id ?r = ac_cost_center_id ac" "vr_cost_element ?r = f"
      "vr_standard_amount ?r = sc_getattr sc f" "vr_actual_amount ?r = ac_getattr ac f"
      by (simp_all add: variance_record_eq)
    ultimately show ?thesis by blast
  qed
  show ?thesis
  proof (intro exI [of _ records] conjI ballI allI impI)
    show "db_variance_records db' =
         filter (\<lambda>r. \<not> (vr_period_id r = period_id \<and> ?sel (vr_product_id r)))
           (db_variance_records db) @ records"
      using tab st by simp
    show "as_records_created summary = length records" by (rule cnt)
  qed (use props bound complete in \<open>blast+\<close>)
qed

theorem analyze_variances_records_witness:
  "\<exists>db' summary r. analyze_variances
     \<lparr>db_materials = [], db_crude_products = [], db_products = [], db_bom_headers = [],
      db_cost_centers = [], db_cost_budgets = [], db_allocation_rules = [],
      db_fiscal_periods = [''p1''], db_crude_product_standard_costs = [],
      db_standard_costs =
        [\<lparr>sc_product_id = ''x'', sc_period_id = ''p1'', sc_crude_product_cost = 0,
          sc_packaging_cost = 0, sc_labor_cost = 100, sc_overhead_cost = 0,
          sc_outsourcing_cost = 0, sc_total_cost = 100, sc_unit_cost = 100, sc_lot_size = 1,
          sc_notes = None\<rparr>],
      db_actual_costs =
        [\<lparr>ac_product_id = ''x'', ac_cost_center_id = ''c1'', ac_period_id = ''p1'',
          ac_crude_product_cost = 0, ac_packaging_cost = 0, ac_labor_cost = 105,
          ac_overhead_cost = 0, ac_outsourcing_cost = 0, ac_total_cost = 105,
          ac_quantity_produced = 1, ac_source_system = sc_system, ac_notes = None\<rparr>],
      db_cost_allocations = [], db_variance_records = [], db_reconciliation_results = []\<rparr>
     ''p1'' [] 5 = Inr (db', summary)
   \<and> length (db_variance_records db') = 5
   \<and> r \<in> set (db_variance_records db') \<and> vr_cost_element r = ''labor_cost''
   \<and> vr_standard_amount r = 100 \<and> vr_actual_amount r = 105 \<and> vr_variance_amount r = 5
   \<and> vr_variance_percent r = 5 \<and> \<not> vr_is_favorable r \<and> \<not> vr_is_flagged r"
proof -
  let ?sc = "\<lparr>sc_product_id = ''x'', sc_period_id = ''p1'', sc_crude_product_cost = 0,
          sc_packaging_cost = 0, sc_labor_cost = 100, sc_overhead_cost = 0,
          sc_outsourcing_cost = 0, sc_total_cost = 100, sc_unit_cost = 100, sc_lot_size = 1,
          sc_notes = None\<rparr>"
  let ?ac = "\<lparr>ac_product_id = ''x'', ac_cost_center_id = ''c1'', ac_period_id = ''p1'',
          ac_crude_product_cost = 0, ac_packaging_cost = 0, ac_labor_cost = 105,
          ac_overhead_cost = 0, ac_outsourcing_cost = 0, ac_total_cost = 105,
          ac_quantity_produced = 1, ac_source_system = sc_system, ac_notes = None\<rparr>"
  let ?db = "\<lparr>db_materials = [], db_crude_products = [], db_products = [], db_bom_headers = [],
      db_cost_centers = [], db_cost_budgets = [], db_allocation_rules = [],
      db_fiscal_periods = [''p1''], db_crude_product_standard_costs = [],
      db_standard_costs = [?sc], db_actual_costs = [?ac],
      db_cost_allocations = [], db_variance_records = [], db_reconciliation_results = []\<rparr>"
  have "\<exists>x. analyze_variances ?db ''p1'' [] 5 = Inr x"
    by (simp add: analyze_variances_eval)
  then obtain db' summary where res: "analyze_variances ?db ''p1'' [] 5 = Inr (db', summary)"
    by force
  have h1: "\<forall>sc \<in> set (db_standard_costs ?db). \<forall>f \<in> set COST_ELEMENTS.
           is_numeric 18 (sc_getattr sc f)"
    by (simp add: is_numeric_def store_numeric_def COST_ELEMENTS_def sc_getattr_def
          quantize4_def floor_rat_numeral floor_half_rat)
  have h2: "\<forall>ac \<in> set (db_actual_costs ?db). \<forall>f \<in> set COST_ELEMENTS.
           is_numeric 18 (ac_getattr ac f)"
    by (simp add: is_numeric_def store_numeric_def COST_ELEMENTS_def ac_getattr_def
          quantize4_def floor_rat_numeral floor_half_rat)
  have sc: "map_of (standard_costs_by_product
               (filter (\<lambda>sc. sc_period_id sc = ''p1''
                          \<and> (([]::ident list) = [] \<or> sc_product_id sc \<in> set []))
                  (db_standard_costs ?db))) (ac_product_id ?ac) = Some ?sc"
    by (simp add: standard_costs_by_product_def)
  from analyze_variances_records [OF res h1 h2] obtain records where
    tab: "db_variance_records db' =
         filter (\<lambda>r. \<not> (vr_period_id r = ''p1''
                   \<and> (([]::ident list) = [] \<or> vr_product_id r \<in> set [])))
           (db_variance_records ?db) @ records"
    and pr: "\<forall>r \<in> set records.
           vr_variance_amount r = vr_actual_amount r - vr_standard_amount r
         \<and> vr_variance_percent r =
             (if vr_standard_amount r = 0 then 0
              else quantize4 (vr_variance_amount r / vr_standard_amount r * 100))
         \<and> vr_is_favorable r = (vr_variance_amount r \<le> 0)
         \<and> vr_is_flagged r = (\<bar>vr_variance_percent r\<bar> > 5)"
    and complete: "\<forall>ac \<in> set (db_actual_costs ?db). \<forall>sc. \<forall>f \<in> set COST_ELEMENTS.
           ac_period_id ac = ''p1''
         \<and> (([]::ident list) = [] \<or> ac_product_id ac \<in> set [])
         \<and> map_of (standard_costs_by_product
               (filter (\<lambda>sc. sc_period_id sc = ''p1''
                          \<and> (([]::ident list) = [] \<or> sc_product_id sc \<in> set []))
                  (db_standard_costs ?db))) (ac_product_id ac) = Some sc
         \<longrightarrow> (\<exists>r \<in> set records.
               vr_product_id r = ac_product_id ac
             \<and> vr_cost_center_id r = ac_cost_center_id ac
             \<and> vr_cost_element r = f
             \<and> vr_standard_amount r = sc_getattr sc f
             \<and> vr_actual_amount r = ac_getattr ac f)"
    by blast
  have recs: "db_variance_records db' = records" using tab by simp
  have len: "length (db_variance_records db') = 5"
    using res by (simp add: analyze_variances_eval) auto
  have "?ac \<in> set (db_actual_costs ?db)" "''labor_cost'' \<in> set COST_ELEMENTS"
    "ac_period_id ?ac = ''p1''"
    by (simp_all add: COST_ELEMENTS_def)
  with complete sc obtain r where rin: "r \<in> set records"
    and f0: "vr_cost_element r = ''labor_cost''"
      "vr_standard_amount r = sc_getattr ?sc ''labor_cost''"
      "vr_actual_amount r = ac_getattr ?ac ''labor_cost''"
    by blast
  have f: "vr_standard_amount r = 100" "vr_actual_amount r = 105"
    using f0 by (simp_all add: sc_getattr_def ac_getattr_def)
  have v: "vr_variance_amount r = 5" using pr rin f by simp
  have pc: "vr_variance_percent r = 5"
    using pr rin f v by (simp add: quantize4_def floor_rat_numeral floor_half_rat)
  have "\<not> vr_is_favorable r" "\<not> vr_is_flagged r" using pr rin v pc by simp_all
  then show ?thesis using res rin recs f0(1) f v pc len by blast
qed

text \<open>
  A call need not return: with a standard labor cost of 1 and an actual one of 101 the
  percent is 10000, which the column \<^verbatim>\<open>Numeric(8, 4)\<close> does not hold, and the flush
  at the end of the function raises.
\<close>

lemma analyze_variances_percent_overflow:
  "analyze_variances
     \<lparr>db_materials = [], db_crude_products = [], db_products = [], db_bom_headers = [],
      db_cost_centers = [], db_cost_budgets = [], db_allocation_rules = [],
      db_fiscal_periods = [''p1''], db_crude_product_standard_costs = [],
      db_standard_costs =
        [\<lparr>sc_product_id = ''x'', sc_period_id = ''p1'', sc_crude_product_cost = 0,
          sc_packaging_cost = 0, sc_labor_cost = 1, sc_overhead_cost = 0,
          sc_outsourcing_cost = 0, sc_total_cost = 1, sc_unit_cost = 1, sc_lot_size = 1,
          sc_notes = None\<rparr>],
      db_actual_costs =
        [\<lparr>ac_product_id = ''x'', ac_cost_center_id = ''c1'', ac_period_id = ''p1'',
          ac_crude_product_cost = 0, ac_packaging_cost = 0, ac_labor_cost = 101,
          ac_overhead_cost = 0, ac_outsourcing_cost = 0, ac_total_cost = 101,
          ac_quantity_produced = 1, ac_source_system = sc_system, ac_notes = None\<rparr>],
      db_cost_allocations = [], db_variance_records = [], db_reconciliation_results = []\<rparr>
     ''p1'' [] 5 = Inl DataError"
  by (simp add: analyze_variances_eval)

section \<open>Reconciliation: grouping and classification\<close>

















section \<open>Period copy: counters of a second run\<close>

lemma filter_map_keep:
  assumes "\<And>r. P (f r) = P r"
  shows "length (filter P (map f xs)) = length (filter P xs)"
  by (induction xs) (simp_all add: assms)

lemma filter_map_same:
  assumes "\<And>r. P r \<Longrightarrow> f r = r" and "\<And>r. P (f r) = P r"
  shows "filter P (map f xs) = filter P xs"
  by (induction xs) (simp_all add: assms)

lemma copy_loop_count:
  assumes "copy_loop key period tgt sc nr ow srcs table c = Inr (table', c')"
    and "\<And>s r. key (sc s r) = key r \<and> period (sc s r) = period r"
    and "\<And>s. key (nr s) = key s \<and> period (nr s) = tgt"
    and "filter (\<lambda>r. key r = k \<and> period r = tgt) table \<noteq> []"
  shows "length (filter (\<lambda>r. key r = k \<and> period r = tgt) table')
       = length (filter (\<lambda>r. key r = k \<and> period r = tgt) table)"
  using assms(1,4)
proof (induction srcs arbitrary: table c)
  case Nil
  then show ?case by simp
next
  case (Cons src rest)
  obtain a b u where c: "c = (a, b, u)" by (cases c)
  let ?K = "\<lambda>r. key r = k \<and> period r = tgt"
  let ?T = "\<lambda>r. key r = key src \<and> period r = tgt"
  let ?upd = "map (\<lambda>r. if ?T r then sc src r else r) table"
  have updlen: "length (filter ?K ?upd) = length (filter ?K table)"
    by (rule filter_map_keep) (simp add: assms(2))
  show ?case
  proof (cases "filter ?T table")
    case Nil
    then have kne: "key src \<noteq> k" using Cons.prems(2)
      by (auto simp: filter_empty_conv)
    have run: "copy_loop key period tgt sc nr ow rest (table @ [nr src]) (a + 1, b, u) = Inr (table', c')"
      using Cons.prems(1) Nil c by simp
    have same: "filter ?K (table @ [nr src]) = filter ?K table"
      using kne by (simp add: assms(3))
    show ?thesis using Cons.IH [OF run] same Cons.prems(2) by simp
  next
    case (Cons t ts)
    note T = this
    show ?thesis
    proof (cases ts)
      case Nil
      show ?thesis
      proof (cases ow)
        case True
        have run: "copy_loop key period tgt sc nr ow rest ?upd (a, b, u + 1) = Inr (table', c')"
          using Cons.prems(1) T Nil c True by simp
        have ne: "filter ?K ?upd \<noteq> []"
          using updlen Cons.prems(2) by (metis length_0_conv)
        show ?thesis using Cons.IH [OF run ne] updlen by simp
      next
        case False
        have run: "copy_loop key period tgt sc nr ow rest table (a, b + 1, u) = Inr (table', c')"
          using Cons.prems(1) T Nil c False by simp
        show ?thesis using Cons.IH [OF run Cons.prems(2)] .
      qed
    next
      case (Cons t2 ts2)
      then show ?thesis using Cons.prems(1) T c by simp
    qed
  qed
qed

lemma copy_loop_one_each:
  assumes "copy_loop key period tgt sc nr ow srcs table c = Inr (table', c')"
    and "\<And>s r. key (sc s r) = key r \<and> period (sc s r) = period r"
    and "\<And>s. key (nr s) = key s \<and> period (nr s) = tgt"
  shows "\<forall>src \<in> set srcs. length (filter (\<lambda>r. key r = key src \<and> period r = tgt) table') = 1"
  using assms(1)
proof (induction srcs arbitrary: table c)
  case Nil
  then show ?case by simp
next
  case (Cons src rest)
  obtain a b u where c: "c = (a, b, u)" by (cases c)
  let ?T = "\<lambda>r. key r = key src \<and> period r = tgt"
  let ?upd = "map (\<lambda>r. if ?T r then sc src r else r) table"
  have updlen: "length (filter ?T ?upd) = length (filter ?T table)"
    by (rule filter_map_keep) (simp add: assms(2))
  obtain table1 c1 where
    run: "copy_loop key period tgt sc nr ow rest table1 c1 = Inr (table', c')"
    and one: "length (filter ?T table1) = 1"
  proof (cases "filter ?T table")
    case Nil
    have "copy_loop key period tgt sc nr ow rest (table @ [nr src]) (a + 1, b, u) = Inr (table', c')"
      using Cons.prems(1) Nil c by simp
    moreover have "length (filter ?T (table @ [nr src])) = 1"
      using Nil by (simp add: assms(3))
    ultimately show ?thesis using that by blast
  next
    case (Cons t ts)
    note T = this
    show ?thesis
    proof (cases ts)
      case Nil
      show ?thesis
      proof (cases ow)
        case True
        have "copy_loop key period tgt sc nr ow rest ?upd (a, b, u + 1) = Inr (table', c')"
          using Cons.prems(1) T Nil c True by simp
        moreover have "length (filter ?T ?upd) = 1" using updlen T Nil by simp
        ultimately show ?thesis using that by blast
      next
        case False
        have "copy_loop key period tgt sc nr ow rest table (a, b + 1, u) = Inr (table', c')"
          using Cons.prems(1) T Nil c False by simp
        moreover have "length (filter ?T table) = 1" using T Nil by simp
        ultimately show ?thesis using that by blast
      qed
    next
      case (Cons t2 ts2)
      then show ?thesis using Cons.prems(1) T c by simp
    qed
  qed
  have ne: "filter ?T table1 \<noteq> []" using one by auto
  have "length (filter ?T table') = 1"
    using copy_loop_count [OF run assms(2) assms(3) ne] one by simp
  then show ?case using Cons.IH [OF run] by simp
qed

lemma copy_loop_other_period:
  assumes "copy_loop key period tgt sc nr ow srcs table c = Inr (table', c')"
    and "\<And>s r. key (sc s r) = key r \<and> period (sc s r) = period r"
    and "\<And>s. key (nr s) = key s \<and> period (nr s) = tgt"
    and "p \<noteq> tgt"
  shows "filter (\<lambda>r. period r = p) table' = filter (\<lambda>r. period r = p) table"
  using assms(1)
proof (induction srcs arbitrary: table c)
  case Nil
  then show ?case by simp
next
  case (Cons src rest)
  obtain a b u where c: "c = (a, b, u)" by (cases c)
  let ?T = "\<lambda>r. key r = key src \<and> period r = tgt"
  let ?upd = "map (\<lambda>r. if ?T r then sc src r else r) table"
  have upd: "filter (\<lambda>r. period r = p) ?upd = filter (\<lambda>r. period r = p) table"
    by (rule filter_map_same) (use assms(2,4) in auto)
  show ?case
  proof (cases "filter ?T table")
    case Nil
    have run: "copy_loop key period tgt sc nr ow rest (table @ [nr src]) (a + 1, b, u) = Inr (table', c')"
      using Cons.prems(1) Nil c by simp
    show ?thesis using Cons.IH [OF run] assms(3,4) by simp
  next
    case (Cons t ts)
    note T = this
    show ?thesis
    proof (cases ts)
      case Nil
      show ?thesis
      proof (cases ow)
        case True
        have run: "copy_loop key period tgt sc nr ow rest ?upd (a, b, u + 1) = Inr (table', c')"
          using Cons.prems(1) T Nil c True by simp
        show ?thesis using Cons.IH [OF run] upd by simp
      next
        case False
        have run: "copy_loop key period tgt sc nr ow rest table (a, b + 1, u) = Inr (table', c')"
          using Cons.prems(1) T Nil c False by simp
        show ?thesis using Cons.IH [OF run] .
      qed
    next
      case (Cons t2 ts2)
      then show ?thesis using Cons.prems(1) T c by simp
    qed
  qed
qed

lemma length_one_filter: "length xs = 1 \<Longrightarrow> \<exists>t. xs = [t]"
  by (cases xs) auto

lemma copy_loop_all_skipped:
  assumes "\<forall>src \<in> set srcs. length (filter (\<lambda>r. key r = key src \<and> period r = tgt) table) = 1"
  shows "copy_loop key period tgt sc nr False srcs table (a, b, u)
       = Inr (table, (a, b + length srcs, u))"
  using assms
proof (induction srcs arbitrary: b)
  case Nil
  then show ?case by simp
next
  case (Cons src rest)
  have "length (filter (\<lambda>r. key r = key src \<and> period r = tgt) table) = 1"
    using Cons.prems by simp
  then obtain t where t: "filter (\<lambda>r. key r = key src \<and> period r = tgt) table = [t]"
    using length_one_filter by blast
  have rest: "\<forall>s \<in> set rest. length (filter (\<lambda>r. key r = key s \<and> period r = tgt) table) = 1"
    using Cons.prems by simp
  have "copy_loop key period tgt sc nr False (src # rest) table (a, b, u)
      = copy_loop key period tgt sc nr False rest table (a, b + 1, u)"
    by (simp add: t)
  also have "\<dots> = Inr (table, (a, b + 1 + length rest, u))"
    by (rule Cons.IH [OF rest])
  finally show ?case by simp
qed

lemma copy_loop_all_updated:
  assumes "\<forall>src \<in> set srcs. length (filter (\<lambda>r. key r = key src \<and> period r = tgt) table) = 1"
    and "\<And>s r. key (sc s r) = key r \<and> period (sc s r) = period r"
  shows "\<exists>table'. copy_loop key period tgt sc nr True srcs table (a, b, u)
       = Inr (table', (a, b, u + length srcs))"
  using assms(1)
proof (induction srcs arbitrary: u table)
  case Nil
  then show ?case by simp
next
  case (Cons src rest)
  let ?T = "\<lambda>r. key r = key src \<and> period r = tgt"
  let ?upd = "map (\<lambda>r. if ?T r then sc src r else r) table"
  have "length (filter ?T table) = 1"
    using Cons.prems by simp
  then obtain t where t: "filter ?T table = [t]"
    using length_one_filter by blast
  have keep: "\<forall>s \<in> set rest. length (filter (\<lambda>r. key r = key s \<and> period r = tgt) ?upd) = 1"
  proof
    fix s assume s: "s \<in> set rest"
    have "length (filter (\<lambda>r. key r = key s \<and> period r = tgt) ?upd)
        = length (filter (\<lambda>r. key r = key s \<and> period r = tgt) table)"
      by (rule filter_map_keep) (simp add: assms(2))
    then show "length (filter (\<lambda>r. key r = key s \<and> period r = tgt) ?upd) = 1"
      using Cons.prems s by simp
  qed
  have "copy_loop key period tgt sc nr True (src # rest) table (a, b, u)
      = copy_loop key period tgt sc nr True rest ?upd (a, b, u + 1)"
    by (simp add: t)
  moreover obtain table' where "copy_loop key period tgt sc nr True rest ?upd (a, b, u + 1)
      = Inr (table', (a, b, u + 1 + length rest))"
    using Cons.IH [OF keep, of "u + 1"] by blast
  ultimately show ?case by simp
qed

lemma copy_loop_all_copied:
  assumes "\<forall>src \<in> set srcs. filter (\<lambda>r. key r = key src \<and> period r = tgt) table = []"
    and "distinct (map key srcs)"
    and "\<And>s. key (nr s) = key s \<and> period (nr s) = tgt"
  shows "copy_loop key period tgt sc nr ow srcs table (a, b, u)
       = Inr (table @ map nr srcs, (a + length srcs, b, u))"
  using assms(1,2)
proof (induction srcs arbitrary: a table)
  case Nil
  then show ?case by simp
next
  case (Cons src rest)
  have e: "filter (\<lambda>r. key r = key src \<and> period r = tgt) table = []"
    using Cons.prems(1) by simp
  have keep: "\<forall>s \<in> set rest. filter (\<lambda>r. key r = key s \<and> period r = tgt) (table @ [nr src]) = []"
    using Cons.prems by (auto simp: assms(3))
  have d: "distinct (map key rest)" using Cons.prems(2) by simp
  have "copy_loop key period tgt sc nr ow (src # rest) table (a, b, u)
      = copy_loop key period tgt sc nr ow rest (table @ [nr src]) (a + 1, b, u)"
    by (simp add: e)
  also have "\<dots> = Inr ((table @ [nr src]) @ map nr rest, (a + 1 + length rest, b, u))"
    by (rule Cons.IH [OF keep d])
  finally show ?case by simp
qed

lemma cpsc_rows_facts:
  "cpsc_crude_product_id (cpsc_set_columns s r) = cpsc_crude_product_id r
     \<and> cpsc_period_id (cpsc_set_columns s r) = cpsc_period_id r"
  "cpsc_crude_product_id (cpsc_new_record t s) = cpsc_crude_product_id s
     \<and> cpsc_period_id (cpsc_new_record t s) = t"
  by (simp_all add: cpsc_set_columns_def cpsc_new_record_def)

lemma sc_rows_facts:
  "sc_product_id (sc_set_columns s r) = sc_product_id r
     \<and> sc_period_id (sc_set_columns s r) = sc_period_id r"
  "sc_product_id (sc_new_record t s) = sc_product_id s
     \<and> sc_period_id (sc_new_record t s) = t"
  by (simp_all add: sc_set_columns_def sc_new_record_def)

lemma copy_standard_costs_Inr:
  assumes "copy_standard_costs db s t ow = Inr (db1, c1)"
  shows "s \<noteq> t \<and> s \<in> set (db_fiscal_periods db) \<and> t \<in> set (db_fiscal_periods db)
     \<and> db_fiscal_periods db1 = db_fiscal_periods db
     \<and> copy_loop cpsc_crude_product_id cpsc_period_id t cpsc_set_columns (cpsc_new_record t) ow
          (filter (\<lambda>r. cpsc_period_id r = s) (db_crude_product_standard_costs db))
          (db_crude_product_standard_costs db) (0, 0, 0)
        = Inr (db_crude_product_standard_costs db1,
               crude_product_costs_copied c1, crude_product_costs_skipped c1,
               crude_product_costs_updated c1)
     \<and> copy_loop sc_product_id sc_period_id t sc_set_columns (sc_new_record t) ow
          (filter (\<lambda>r. sc_period_id r = s) (db_standard_costs db))
          (db_standard_costs db) (0, 0, 0)
        = Inr (db_standard_costs db1,
               product_costs_copied c1, product_costs_skipped c1, product_costs_updated c1)"
  using assms
  by (auto simp: copy_standard_costs_def split: if_splits sum.splits prod.splits)

text \<open>
  C9.  After a run of \<^verbatim>\<open>copy_standard_costs\<close> from a source to a target period, a
  second run with \<^verbatim>\<open>overwrite=false\<close> leaves the database as it is and reports every
  source row as skipped, and a second run with \<^verbatim>\<open>overwrite=true\<close> reports every
  source row as updated; the first run reports every source row as copied when the
  target period has no row yet (the source rows having distinct items, as the unique
  constraints require).
\<close>

theorem copy_standard_costs_second_run:
  assumes "copy_standard_costs db s t ow = Inr (db1, c1)"
  shows "copy_standard_costs db1 s t False =
           Inr (db1,
                \<lparr>crude_product_costs_copied = 0,
                 crude_product_costs_skipped =
                   length (filter (\<lambda>r. cpsc_period_id r = s) (db_crude_product_standard_costs db)),
                 crude_product_costs_updated = 0,
                 product_costs_copied = 0,
                 product_costs_skipped =
                   length (filter (\<lambda>r. sc_period_id r = s) (db_standard_costs db)),
                 product_costs_updated = 0\<rparr>)
     \<and> (\<exists>db2. copy_standard_costs db1 s t True =
           Inr (db2,
                \<lparr>crude_product_costs_copied = 0,
                 crude_product_costs_skipped = 0,
                 crude_product_costs_updated =
                   length (filter (\<lambda>r. cpsc_period_id r = s) (db_crude_product_standard_costs db)),
                 product_costs_copied = 0,
                 product_costs_skipped = 0,
                 product_costs_updated =
                   length (filter (\<lambda>r. sc_period_id r = s) (db_standard_costs db))\<rparr>))
     \<and> (filter (\<lambda>r. cpsc_period_id r = t) (db_crude_product_standard_costs db) = []
          \<and> filter (\<lambda>r. sc_period_id r = t) (db_standard_costs db) = []
          \<and> distinct (map cpsc_crude_product_id
                (filter (\<lambda>r. cpsc_period_id r = s) (db_crude_product_standard_costs db)))
          \<and> distinct (map sc_product_id
                (filter (\<lambda>r. sc_period_id r = s) (db_standard_costs db)))
        \<longrightarrow> c1 =
                \<lparr>crude_product_costs_copied =
                   length (filter (\<lambda>r. cpsc_period_id r = s) (db_crude_product_standard_costs db)),
                 crude_product_costs_skipped = 0,
                 crude_product_costs_updated = 0,
                 product_costs_copied =
                   length (filter (\<lambda>r. sc_period_id r = s) (db_standard_costs db)),
                 product_costs_skipped = 0,
                 product_costs_updated = 0\<rparr>)"
proof -
  let ?ct = "db_crude_product_standard_costs db" and ?ct1 = "db_crude_product_standard_costs db1"
  let ?pt = "db_standard_costs db" and ?pt1 = "db_standard_costs db1"
  let ?csrc = "filter (\<lambda>r. cpsc_period_id r = s) ?ct"
  let ?psrc = "filter (\<lambda>r. sc_period_id r = s) ?pt"
  note f = copy_standard_costs_Inr [OF assms]
  have ne: "s \<noteq> t" and ps: "s \<in> set (db_fiscal_periods db1)" "t \<in> set (db_fiscal_periods db1)"
    using f by simp_all
  have crun: "copy_loop cpsc_crude_product_id cpsc_period_id t cpsc_set_columns (cpsc_new_record t) ow
          ?csrc ?ct (0, 0, 0)
        = Inr (?ct1, crude_product_costs_copied c1, crude_product_costs_skipped c1,
               crude_product_costs_updated c1)"
    using f by simp
  have prun: "copy_loop sc_product_id sc_period_id t sc_set_columns (sc_new_record t) ow
          ?psrc ?pt (0, 0, 0)
        = Inr (?pt1, product_costs_copied c1, product_costs_skipped c1, product_costs_updated c1)"
    using f by simp
  have csrc1: "filter (\<lambda>r. cpsc_period_id r = s) ?ct1 = ?csrc"
    by (rule copy_loop_other_period [OF crun cpsc_rows_facts(1) cpsc_rows_facts(2) ne])
  have psrc1: "filter (\<lambda>r. sc_period_id r = s) ?pt1 = ?psrc"
    by (rule copy_loop_other_period [OF prun sc_rows_facts(1) sc_rows_facts(2) ne])
  have cone: "\<forall>src \<in> set ?csrc.
      length (filter (\<lambda>r. cpsc_crude_product_id r = cpsc_crude_product_id src
                          \<and> cpsc_period_id r = t) ?ct1) = 1"
    by (rule copy_loop_one_each [OF crun cpsc_rows_facts(1) cpsc_rows_facts(2)])
  have pone: "\<forall>src \<in> set ?psrc.
      length (filter (\<lambda>r. sc_product_id r = sc_product_id src \<and> sc_period_id r = t) ?pt1) = 1"
    by (rule copy_loop_one_each [OF prun sc_rows_facts(1) sc_rows_facts(2)])
  have cskip: "copy_loop cpsc_crude_product_id cpsc_period_id t cpsc_set_columns (cpsc_new_record t)
      False ?csrc ?ct1 (0, 0, 0) = Inr (?ct1, (0, 0 + length ?csrc, 0))"
    by (rule copy_loop_all_skipped [OF cone])
  have pskip: "copy_loop sc_product_id sc_period_id t sc_set_columns (sc_new_record t)
      False ?psrc ?pt1 (0, 0, 0) = Inr (?pt1, (0, 0 + length ?psrc, 0))"
    by (rule copy_loop_all_skipped [OF pone])
  have second_false: "copy_standard_costs db1 s t False =
           Inr (db1,
                \<lparr>crude_product_costs_copied = 0,
                 crude_product_costs_skipped = length ?csrc,
                 crude_product_costs_updated = 0,
                 product_costs_copied = 0,
                 product_costs_skipped = length ?psrc,
                 product_costs_updated = 0\<rparr>)"
    using ne ps by (simp add: copy_standard_costs_def csrc1 psrc1 cskip pskip)
  have "\<exists>ct2. copy_loop cpsc_crude_product_id cpsc_period_id t cpsc_set_columns
      (cpsc_new_record t) True ?csrc ?ct1 (0, 0, 0) = Inr (ct2, (0, 0, 0 + length ?csrc))"
    by (rule copy_loop_all_updated [where key = cpsc_crude_product_id
          and period = cpsc_period_id and sc = cpsc_set_columns, OF cone cpsc_rows_facts(1)])
  then obtain ct2 where cupd: "copy_loop cpsc_crude_product_id cpsc_period_id t cpsc_set_columns
      (cpsc_new_record t) True ?csrc ?ct1 (0, 0, 0) = Inr (ct2, (0, 0, 0 + length ?csrc))" ..
  have "\<exists>pt2. copy_loop sc_product_id sc_period_id t sc_set_columns
      (sc_new_record t) True ?psrc ?pt1 (0, 0, 0) = Inr (pt2, (0, 0, 0 + length ?psrc))"
    by (rule copy_loop_all_updated [where key = sc_product_id
          and period = sc_period_id and sc = sc_set_columns, OF pone sc_rows_facts(1)])
  then obtain pt2 where pupd: "copy_loop sc_product_id sc_period_id t sc_set_columns
      (sc_new_record t) True ?psrc ?pt1 (0, 0, 0) = Inr (pt2, (0, 0, 0 + length ?psrc))" ..
  have second_true: "\<exists>db2. copy_standard_costs db1 s t True =
           Inr (db2,
                \<lparr>crude_product_costs_copied = 0,
                 crude_product_costs_skipped = 0,
                 crude_product_costs_updated = length ?csrc,
                 product_costs_copied = 0,
                 product_costs_skipped = 0,
                 product_costs_updated = length ?psrc\<rparr>)"
    using ne ps by (simp add: copy_standard_costs_def csrc1 psrc1 cupd pupd)
  have first: "c1 =
                \<lparr>crude_product_costs_copied = length ?csrc,
                 crude_product_costs_skipped = 0,
                 crude_product_costs_updated = 0,
                 product_costs_copied = length ?psrc,
                 product_costs_skipped = 0,
                 product_costs_updated = 0\<rparr>"
    if h: "filter (\<lambda>r. cpsc_period_id r = t) ?ct = []
          \<and> filter (\<lambda>r. sc_period_id r = t) ?pt = []
          \<and> distinct (map cpsc_crude_product_id ?csrc)
          \<and> distinct (map sc_product_id ?psrc)"
  proof -
    have c0: "\<forall>src \<in> set ?csrc. filter (\<lambda>r. cpsc_crude_product_id r = cpsc_crude_product_id src
                          \<and> cpsc_period_id r = t) ?ct = []"
      using h by (auto simp: filter_empty_conv)
    have p0: "\<forall>src \<in> set ?psrc. filter (\<lambda>r. sc_product_id r = sc_product_id src
                          \<and> sc_period_id r = t) ?pt = []"
      using h by (auto simp: filter_empty_conv)
    have "copy_loop cpsc_crude_product_id cpsc_period_id t cpsc_set_columns (cpsc_new_record t) ow
          ?csrc ?ct (0, 0, 0) = Inr (?ct @ map (cpsc_new_record t) ?csrc, (0 + length ?csrc, 0, 0))"
      using h by (intro copy_loop_all_copied [where key = cpsc_crude_product_id
            and period = cpsc_period_id and nr = "cpsc_new_record t", OF c0 _ cpsc_rows_facts(2)])
        simp
    then have c: "crude_product_costs_copied c1 = length ?csrc"
      "crude_product_costs_skipped c1 = 0" "crude_product_costs_updated c1 = 0"
      using crun by simp_all
    have "copy_loop sc_product_id sc_period_id t sc_set_columns (sc_new_record t) ow
          ?psrc ?pt (0, 0, 0) = Inr (?pt @ map (sc_new_record t) ?psrc, (0 + length ?psrc, 0, 0))"
      using h by (intro copy_loop_all_copied [where key = sc_product_id
            and period = sc_period_id and nr = "sc_new_record t", OF p0 _ sc_rows_facts(2)])
        simp
    then have p: "product_costs_copied c1 = length ?psrc"
      "product_costs_skipped c1 = 0" "product_costs_updated c1 = 0"
      using prun by simp_all
    show ?thesis using c p by simp
  qed
  show ?thesis
  proof (intro conjI impI)
    show "copy_standard_costs db1 s t False =
           Inr (db1,
                \<lparr>crude_product_costs_copied = 0,
                 crude_product_costs_skipped = length ?csrc,
                 crude_product_costs_updated = 0,
                 product_costs_copied = 0,
                 product_costs_skipped = length ?psrc,
                 product_costs_updated = 0\<rparr>)"
      by (rule second_false)
    show "\<exists>db2. copy_standard_costs db1 s t True =
           Inr (db2,
                \<lparr>crude_product_costs_copied = 0,
                 crude_product_costs_skipped = 0,
                 crude_product_costs_updated = length ?csrc,
                 product_costs_copied = 0,
                 product_costs_skipped = 0,
                 product_costs_updated = length ?psrc\<rparr>)"
      by (rule second_true)
    assume "filter (\<lambda>r. cpsc_period_id r = t) ?ct = []
          \<and> filter (\<lambda>r. sc_period_id r = t) ?pt = []
          \<and> distinct (map cpsc_crude_product_id ?csrc)
          \<and> distinct (map sc_product_id ?psrc)"
    then show "c1 =
                \<lparr>crude_product_costs_copied = length ?csrc,
                 crude_product_costs_skipped = 0,
                 crude_product_costs_updated = 0,
                 product_costs_copied = length ?psrc,
                 product_costs_skipped = 0,
                 product_costs_updated = 0\<rparr>"
      by (rule first)
  qed
qed

theorem copy_standard_costs_second_run_witness:
  "\<exists>db1 c1.
     copy_standard_costs
       (empty_db\<lparr>db_fiscal_periods := [''p1'', ''p2''],
          db_crude_product_standard_costs :=
            [\<lparr>cpsc_crude_product_id = ''a'', cpsc_period_id = ''p1'', cpsc_material_cost = 10,
              cpsc_labor_cost = 2, cpsc_overhead_cost = 3, cpsc_prior_process_cost = 0,
              cpsc_total_cost = 15, cpsc_unit_cost = 5, cpsc_standard_quantity = 3,
              cpsc_notes = None\<rparr>],
          db_standard_costs :=
            [\<lparr>sc_product_id = ''x'', sc_period_id = ''p1'', sc_crude_product_cost = 5,
              sc_packaging_cost = 1, sc_labor_cost = 1, sc_overhead_cost = 1,
              sc_outsourcing_cost = 0, sc_total_cost = 8, sc_unit_cost = 8, sc_lot_size = 1,
              sc_notes = None\<rparr>]\<rparr>)
       ''p1'' ''p2'' False = Inr (db1, c1)
     \<and> c1 = \<lparr>crude_product_costs_copied = 1, crude_product_costs_skipped = 0,
             crude_product_costs_updated = 0, product_costs_copied = 1,
             product_costs_skipped = 0, product_costs_updated = 0\<rparr>
     \<and> copy_standard_costs db1 ''p1'' ''p2'' False =
         Inr (db1, \<lparr>crude_product_costs_copied = 0, crude_product_costs_skipped = 1,
                    crude_product_costs_updated = 0, product_costs_copied = 0,
                    product_costs_skipped = 1, product_costs_updated = 0\<rparr>)
     \<and> (\<exists>db2. copy_standard_costs db1 ''p1'' ''p2'' True =
         Inr (db2, \<lparr>crude_product_costs_copied = 0, crude_product_costs_skipped = 0,
                    crude_product_costs_updated = 1, product_costs_copied = 0,
                    product_costs_skipped = 0, product_costs_updated = 1\<rparr>))"
proof -
  let ?db = "empty_db\<lparr>db_fiscal_periods := [''p1'', ''p2''],
          db_crude_product_standard_costs :=
            [\<lparr>cpsc_crude_product_id = ''a'', cpsc_period_id = ''p1'', cpsc_material_cost = 10,
              cpsc_labor_cost = 2, cpsc_overhead_cost = 3, cpsc_prior_process_cost = 0,
              cpsc_total_cost = 15, cpsc_unit_cost = 5, cpsc_standard_quantity = 3,
              cpsc_notes = None\<rparr>],
          db_standard_costs :=
            [\<lparr>sc_product_id = ''x'', sc_period_id = ''p1'', sc_crude_product_cost = 5,
              sc_packaging_cost = 1, sc_labor_cost = 1, sc_overhead_cost = 1,
              sc_outsourcing_cost = 0, sc_total_cost = 8, sc_unit_cost = 8, sc_lot_size = 1,
              sc_notes = None\<rparr>]\<rparr>"
  have "\<exists>db1 c1. copy_standard_costs ?db ''p1'' ''p2'' False = Inr (db1, c1)"
    by (simp add: copy_standard_costs_def empty_db_def)
  then obtain db1 c1 where first: "copy_standard_costs ?db ''p1'' ''p2'' False = Inr (db1, c1)"
    by (elim exE)
  have n1: "length (filter (\<lambda>r. cpsc_period_id r = ''p1'') (db_crude_product_standard_costs ?db)) = 1"
    and n2: "length (filter (\<lambda>r. sc_period_id r = ''p1'') (db_standard_costs ?db)) = 1"
    by (simp_all add: empty_db_def)
  have h: "filter (\<lambda>r. cpsc_period_id r = ''p2'') (db_crude_product_standard_costs ?db) = []
          \<and> filter (\<lambda>r. sc_period_id r = ''p2'') (db_standard_costs ?db) = []
          \<and> distinct (map cpsc_crude_product_id
                (filter (\<lambda>r. cpsc_period_id r = ''p1'') (db_crude_product_standard_costs ?db)))
          \<and> distinct (map sc_product_id
                (filter (\<lambda>r. sc_period_id r = ''p1'') (db_standard_costs ?db)))"
    by (simp add: empty_db_def)
  note t = copy_standard_costs_second_run [OF first]
  have a: "copy_standard_costs db1 ''p1'' ''p2'' False =
         Inr (db1, \<lparr>crude_product_costs_copied = 0, crude_product_costs_skipped = 1,
                    crude_product_costs_updated = 0, product_costs_copied = 0,
                    product_costs_skipped = 1, product_costs_updated = 0\<rparr>)"
    using t [THEN conjunct1] unfolding n1 n2 .
  have b: "\<exists>db2. copy_standard_costs db1 ''p1'' ''p2'' True =
         Inr (db2, \<lparr>crude_product_costs_copied = 0, crude_product_costs_skipped = 0,
                    crude_product_costs_updated = 1, product_costs_copied = 0,
                    product_costs_skipped = 0, product_costs_updated = 1\<rparr>)"
    using t [THEN conjunct2, THEN conjunct1] unfolding n1 n2 .
  have c: "c1 = \<lparr>crude_product_costs_copied = 1, crude_product_costs_skipped = 0,
             crude_product_costs_updated = 0, product_costs_copied = 1,
             product_costs_skipped = 0, product_costs_updated = 0\<rparr>"
    using t [THEN conjunct2, THEN conjunct2, THEN mp, OF h] unfolding n1 n2 .
  show ?thesis
    by (intro exI [of _ db1] exI [of _ c1] conjI first c a b)
qed

section \<open>Rule-based allocation: the result of a call\<close>

text \<open>
  C3.  \<^verbatim>\<open>execute_rule_based_allocation\<close> is documented to return a map from cost element
  to a map over the item ids.  Its first statement loads the rules, which raises
  \<^verbatim>\<open>AttributeError\<close>: no call returns a map, whatever the budgets, the items and the
  rules in the session.
\<close>

theorem execute_rule_based_allocation_raises:
  "execute_rule_based_allocation db source_cost_center_id budgets item_data period_id simulate
     default_basis = Inl AttributeError"
  by (simp add: execute_rule_based_allocation_def load_allocation_rules_def bindE_def)

text \<open>
  Were the rules loaded, the loop of the function would still not key the result by item
  in the branch of a \<^verbatim>\<open>manual\<close> rule with targets: for the single item \<open>item1\<close> and a
  rule with the one target \<open>cc2\<close>, the labor budget of 100 goes under the key \<open>cc2\<close>.
\<close>

lemma execute_loop_manual_keys:
  "execute_loop
     [\<lparr>rule_ident = ''r1'', rule_source_cost_center_id = ''cc1'',
       rule_cost_element = Some ''labor'', rule_basis = manual, rule_priority = 10,
       rule_is_active = True,
       rule_targets = [\<lparr>target_cost_center_id = ''cc2'', target_ratio = 1\<rparr>]\<rparr>]
     ''cc1'' [(''item1'', [(''raw_material_quantity'', 10)])] None True raw_material_quantity
     [(''labor'', 100)] empty_db []
   = Inr (empty_db, [(''labor'', [(''cc2'', 100)])])"
  by (simp add: find_matching_rule_def allocate_element_def target_ratios_def
        allocate_by_ratio_def ZERO_def)

end
